theory Spec2Isabelle
  imports Main "HOL-Library.AList"
begin

section \<open>The request router of deno-api-server\<close>

text \<open>
  The repository holds two variants of one module: \<^verbatim>\<open>src/mod.js\<close>, where a route only
  opts in (flags \<^verbatim>\<open>verify\<close>, \<^verbatim>\<open>sign\<close>) to the process-wide hooks \<^verbatim>\<open>auth_verify\<close> and
  \<^verbatim>\<open>auth_sign\<close>, and \<^verbatim>\<open>src/unnamed/part_000\<close>, where every route carries its own hooks
  \<^verbatim>\<open>verify\<close>, \<^verbatim>\<open>sign\<close> and \<^verbatim>\<open>login\<close>. Definitions that embed text found in both files
  carry no suffix; those of \<^verbatim>\<open>mod.js\<close> end in \<open>_mod\<close>, those of \<^verbatim>\<open>part_000\<close> in \<open>_p0\<close>.

  What the JavaScript platform does (parsing a URL, serialising to JSON, the wording of the
  engine's own error messages) is a parameter of the model, the record \<open>platform\<close>.
  User code (handlers and hooks) is a function that returns or throws. Every call the
  router makes is written to a log of events, so that "was invoked", "was not invoked"
  and "was invoked before" are statements about that log.
\<close>

subsection \<open>Values and errors\<close>

text \<open>A plain object with string values, in insertion order: the header template.\<close>

type_synonym headers = "(string \<times> string) list"

text \<open>
  What a \<^verbatim>\<open>throw\<close> can throw. \<^verbatim>\<open>class CustomError extends Error\<close> carries a message and
  \<^verbatim>\<open>httpStatusCode\<close> (400 when the constructor gets none). \<open>Error\<close> stands for every
  other thrown \<^verbatim>\<open>Error\<close> instance. User code can also throw a value that is no error
  object: \<open>Thrown_value b\<close> is such a value other than \<^verbatim>\<open>null\<close> and \<^verbatim>\<open>undefined\<close>, where
  \<open>b\<close> is the body that \<^verbatim>\<open>new Response(e.message, ..)\<close> gets from it (none when
  \<^verbatim>\<open>e.message\<close> is \<^verbatim>\<open>undefined\<close>, as for a thrown string); \<open>Thrown_nullish\<close> is a thrown
  \<^verbatim>\<open>null\<close> or \<^verbatim>\<open>undefined\<close>, of which no property can be read.
\<close>

datatype exn = CustomError string int | Error string | Thrown_value "string option" | Thrown_nullish

definition new_CustomError :: "string \<Rightarrow> int option \<Rightarrow> exn" where
  "new_CustomError message httpStatusCode =
     CustomError message (case httpStatusCode of None \<Rightarrow> 400 | Some c \<Rightarrow> c)"

text \<open>Errors the engine itself raises; the platform words their messages.\<close>

datatype fault =
    Not_a_function
  | Status_out_of_range
  | Null_body_status
  | Property_of_nullish
  | Destructure_nullish
  | Read_only_property

record response =
  body :: "string option"
  status :: int
  headers :: headers

text \<open>A finite number is \<open>m * 2 ^ e\<close>; the router never computes with one.\<close>

datatype number = Finite int int | NaN | Infinity bool

text \<open>
  The runtime types a handler's result can have. \<open>VStringObject\<close> is a \<^verbatim>\<open>new String(..)\<close>
  wrapper, \<open>VOther\<close> any object that is neither a plain object, an array, a String wrapper
  nor a Response (named by its class).
\<close>

datatype jsval =
    VUndefined
  | VNull
  | VBoolean bool
  | VNumber number
  | VBigInt int
  | VString string
  | VStringObject string
  | VSymbol string
  | VFunction string
  | VResponse response
  | VObject "(string \<times> jsval) list"
  | VArray "jsval list"
  | VOther string

text \<open>
  An option or a registry field holds any JavaScript value; the code only asks whether it
  is truthy and whether it is a function.
\<close>

datatype 'f slot = Falsy | Func 'f | Truthy_nonfunc

fun truthy :: "'f slot \<Rightarrow> bool" where
  "truthy Falsy = False"
| "truthy (Func f) = True"
| "truthy Truthy_nonfunc = True"

fun is_function :: "'f slot \<Rightarrow> bool" where
  "is_function (Func f) = True"
| "is_function Falsy = False"
| "is_function Truthy_nonfunc = False"

subsection \<open>Requests\<close>

text \<open>
  The request object of the listener. \<open>req_json\<close>, \<open>req_text\<close> and \<open>req_formData\<close> are what
  \<^verbatim>\<open>req.json()\<close>, \<^verbatim>\<open>req.text()\<close> and \<^verbatim>\<open>req.formData()\<close> give when called: \<open>None\<close> when the read rejects. Header names are kept in
  lower case, as the platform's \<^verbatim>\<open>Headers\<close> class keeps them.
\<close>

record request =
  req_method :: string
  req_url :: string
  req_headers :: headers
  req_json :: "jsval option"
  req_text :: "string option"
  req_formData :: "(string \<times> string) list option"

definition headers_get :: "headers \<Rightarrow> string \<Rightarrow> string option" where
  "headers_get h name = map_of h name"

text \<open>The first argument of a handler.\<close>

datatype payload =
    PQuery "(string \<times> string) list"
  | PJson jsval
  | PText string
  | PForm "(string \<times> string) list"
  | PRequest request

record URL =
  pathname :: string
  searchParams :: "(string \<times> string) list"

record platform =
  new_URL :: "string \<Rightarrow> exn + URL"
  JSON_stringify :: "jsval \<Rightarrow> exn + string option"
  fault_message :: "fault \<Rightarrow> string"

type_synonym verify_fn = "request \<Rightarrow> exn + jsval"

text \<open>
  \<^verbatim>\<open>handler(x, user, req)\<close> in \<^verbatim>\<open>mod.js\<close>, \<^verbatim>\<open>handler(x, { payload, req })\<close> in \<^verbatim>\<open>part_000\<close>:
  the same three values.
\<close>

type_synonym handler_fn = "payload \<Rightarrow> jsval \<Rightarrow> request \<Rightarrow> exn + jsval"

text \<open>
  A sign or login hook gets the response object and a value. Its return value is dropped;
  it can throw, and it can change the response's headers in place (a response's status is
  read-only): it yields the headers the response has after the call.
\<close>

type_synonym hook_fn = "response \<Rightarrow> jsval \<Rightarrow> exn + headers"

datatype event =
    Verify_called request
  | Read_json
  | Read_text
  | Read_formData
  | Handler_called payload jsval request
  | Sign_called response jsval
  | Login_called response jsval
  | Console_error exn

subsection \<open>Plain objects\<close>

text \<open>
  \<^verbatim>\<open>obj[key]\<close> on a plain object finds an own property or else one that every object
  inherits. The names inherited in Deno (which removes \<^verbatim>\<open>__proto__\<close>) all hold functions.
\<close>

definition Object_prototype_names :: "string list" where
  "Object_prototype_names =
     [''constructor'', ''hasOwnProperty'', ''isPrototypeOf'', ''propertyIsEnumerable'',
      ''toLocaleString'', ''toString'', ''valueOf'', ''__defineGetter__'',
      ''__defineSetter__'', ''__lookupGetter__'', ''__lookupSetter__'']"

datatype 'a lookup = Own 'a | Inherited | Missing

definition js_get :: "(string \<times> 'a) list \<Rightarrow> string \<Rightarrow> 'a lookup" where
  "js_get obj key =
     (case map_of obj key of
        Some v \<Rightarrow> Own v
      | None \<Rightarrow> if key \<in> set Object_prototype_names then Inherited else Missing)"

text \<open>
  \<^verbatim>\<open>obj[key] = v\<close>: an own property keeps its place, a new one goes last. The registry and
  the header template are only read by key; where an object is handed to user code its
  keys are put in the order an object lists them (\<open>own_keys_order\<close> below).
\<close>

definition js_set :: "(string \<times> 'a) list \<Rightarrow> string \<Rightarrow> 'a \<Rightarrow> (string \<times> 'a) list" where
  "js_set obj key v = AList.update key v obj"

definition Object_assign :: "(string \<times> 'a) list \<Rightarrow> (string \<times> 'a) list \<Rightarrow> (string \<times> 'a) list" where
  "Object_assign target source = fold (\<lambda>(k, v) obj. js_set obj k v) source target"

text \<open>
  An object lists its keys that are array indices (\<^verbatim>\<open>"0"\<close>, \<^verbatim>\<open>"1"\<close>, .. up to
  \<open>2\<^sup>3\<^sup>2 - 2\<close>, written without leading zeros) first, in ascending order, and then
  the other keys in the order they were added.
\<close>

definition digit_value :: "char \<Rightarrow> nat option" where
  "digit_value c = map_of (zip ''0123456789'' [0, 1, 2, 3, 4, 5, 6, 7, 8, 9]) c"

definition numeric_value :: "string \<Rightarrow> nat" where
  "numeric_value s = foldl (\<lambda>n c. 10 * n + (case digit_value c of None \<Rightarrow> 0 | Some d \<Rightarrow> d)) 0 s"

definition is_array_index :: "string \<Rightarrow> bool" where
  "is_array_index s =
     (s \<noteq> [] \<and> list_all (\<lambda>c. digit_value c \<noteq> None) s \<and> (s = ''0'' \<or> take 1 s \<noteq> ''0'') \<and>
      numeric_value s < 4294967295)"

definition own_keys_order :: "(string \<times> 'a) list \<Rightarrow> (string \<times> 'a) list" where
  "own_keys_order obj =
     sort_key (\<lambda>kv. numeric_value (fst kv)) (filter (\<lambda>kv. is_array_index (fst kv)) obj) @
     filter (\<lambda>kv. \<not> is_array_index (fst kv)) obj"

definition Object_fromEntries :: "(string \<times> 'a) list \<Rightarrow> (string \<times> 'a) list" where
  "Object_fromEntries entries = own_keys_order (fold (\<lambda>(k, v) obj. js_set obj k v) entries [])"

text \<open>The header template holds strings only, so the clone is the same list, unshared.\<close>

definition structuredClone :: "headers \<Rightarrow> headers" where
  "structuredClone h = h"

subsection \<open>Strings\<close>

text \<open>\<^verbatim>\<open>s.replace(p, "")\<close> with a string pattern: the first occurrence goes.\<close>

fun replace_first :: "string \<Rightarrow> string \<Rightarrow> string" where
  "replace_first p [] = []"
| "replace_first p (c # cs) =
     (if take (length p) (c # cs) = p then drop (length p) (c # cs)
      else c # replace_first p cs)"

fun split :: "char \<Rightarrow> string \<Rightarrow> string list" where
  "split d [] = [[]]"
| "split d (c # cs) =
     (if c = d then [] # split d cs
      else (case split d cs of [] \<Rightarrow> [[c]] | w # ws \<Rightarrow> (c # w) # ws))"

text \<open>\<^verbatim>\<open>"/" + U.pathname.split("/")[1]\<close>; a missing element prints as \<^verbatim>\<open>undefined\<close>.\<close>

definition route_key :: "string \<Rightarrow> string" where
  "route_key pn =
     ''/'' @ (case split (CHR ''/'') pn of _ # seg # _ \<Rightarrow> seg | _ \<Rightarrow> ''undefined'')"

fun digit_char :: "nat \<Rightarrow> char" where
  "digit_char n = char_of (48 + n)"

fun nat_toString :: "nat \<Rightarrow> string" where
  "nat_toString n = (if n < 10 then [digit_char n] else nat_toString (n div 10) @ [digit_char (n mod 10)])"

definition bigint_toString :: "int \<Rightarrow> string" where
  "bigint_toString i = (if i < 0 then CHR ''-'' # nat_toString (nat (- i)) else nat_toString (nat i))"

definition boolean_toString :: "bool \<Rightarrow> string" where
  "boolean_toString b = (if b then ''true'' else ''false'')"

subsection \<open>Responses\<close>

text \<open>
  \<^verbatim>\<open>new Response(body, { status, headers })\<close>: a status outside 200..599 is a RangeError, a
  body with a null-body status a TypeError. The header names and values are taken to be
  valid.
\<close>

definition new_Response :: "platform \<Rightarrow> string option \<Rightarrow> int \<Rightarrow> headers \<Rightarrow> exn + response" where
  "new_Response pf b s h =
     (if s < 200 \<or> 599 < s then Inl (Error (fault_message pf Status_out_of_range))
      else if b \<noteq> None \<and> (s = 204 \<or> s = 205 \<or> s = 304) then Inl (Error (fault_message pf Null_body_status))
      else Inr \<lparr>body = b, status = s, headers = h\<rparr>)"

subsection \<open>The router's static fields\<close>

text \<open>
  \<^verbatim>\<open>Router.#ROUTER_MAP\<close> is a plain object from path to a plain object from method to
  entry. \<open>'e\<close> is the entry type of the variant.
\<close>

record 'e router =
  DEFAULT_HEADERS :: headers
  API_PREFIX :: "string option"
  ROUTER_MAP :: "(string \<times> (string \<times> 'e) list) list"

record 'e router_mod = "'e router" +
  AUTH_VERIFY :: "verify_fn slot"
  AUTH_SIGN :: "hook_fn slot"

text \<open>\<^verbatim>\<open>mod.js\<close>: \<^verbatim>\<open>{ handler, verify, sign }\<close>; the two options are stored as given.\<close>

record entry_mod =
  handler_mod :: "handler_fn slot"
  verify_mod :: "unit slot"
  sign_mod :: "unit slot"

text \<open>\<^verbatim>\<open>part_000\<close>: \<^verbatim>\<open>{ handler, verify, sign, login, raw }\<close>.\<close>

record entry_p0 =
  handler_p0 :: "handler_fn slot"
  verify_p0 :: "verify_fn slot"
  sign_p0 :: "hook_fn slot"
  login_p0 :: "hook_fn slot"
  raw_p0 :: "unit slot"

text \<open>
  What \<^verbatim>\<open>Router.#ROUTER_MAP[path][req.method]\<close> behaves as when the method names an
  inherited function: every field read of it gives \<^verbatim>\<open>undefined\<close>.
\<close>

definition inherited_mod :: entry_mod where
  "inherited_mod = \<lparr>handler_mod = Falsy, verify_mod = Falsy, sign_mod = Falsy\<rparr>"

definition inherited_p0 :: entry_p0 where
  "inherited_p0 =
     \<lparr>handler_p0 = Falsy, verify_p0 = Falsy, sign_p0 = Falsy, login_p0 = Falsy, raw_p0 = Falsy\<rparr>"

definition entry_mod_of :: "entry_mod lookup \<Rightarrow> entry_mod" where
  "entry_mod_of found = (case found of Own e \<Rightarrow> e | _ \<Rightarrow> inherited_mod)"

definition entry_p0_of :: "entry_p0 lookup \<Rightarrow> entry_p0" where
  "entry_p0_of found = (case found of Own e \<Rightarrow> e | _ \<Rightarrow> inherited_p0)"

subsection \<open>Route\<close>

text \<open>
  The fourth argument of \<^verbatim>\<open>Route\<close> is destructured by the parameter pattern
  \<^verbatim>\<open>{ verify, sign, .. } = {}\<close>: \<^verbatim>\<open>undefined\<close> takes the default \<^verbatim>\<open>{}\<close>, \<^verbatim>\<open>null\<close> is a
  TypeError, and of any other value the named properties are read (\<open>Falsy\<close> for one that
  is \<^verbatim>\<open>undefined\<close>, as all are for a number or a string).
\<close>

datatype 'o argument = Undefined_arg | Null_arg | Object_arg 'o

record options_mod =
  opt_verify_mod :: "unit slot"
  opt_sign_mod :: "unit slot"

record options_p0 =
  opt_verify :: "verify_fn slot"
  opt_sign :: "hook_fn slot"
  opt_login :: "hook_fn slot"
  opt_raw :: "unit slot"

definition destructure_mod :: "options_mod argument \<Rightarrow> options_mod option" where
  "destructure_mod options =
     (case options of
        Undefined_arg \<Rightarrow> Some \<lparr>opt_verify_mod = Falsy, opt_sign_mod = Falsy\<rparr>
      | Null_arg \<Rightarrow> None
      | Object_arg ob \<Rightarrow> Some ob)"

definition destructure_p0 :: "options_p0 argument \<Rightarrow> options_p0 option" where
  "destructure_p0 options =
     (case options of
        Undefined_arg \<Rightarrow> Some \<lparr>opt_verify = Falsy, opt_sign = Falsy, opt_login = Falsy, opt_raw = Falsy\<rparr>
      | Null_arg \<Rightarrow> None
      | Object_arg ob \<Rightarrow> Some ob)"

text \<open>
  \<^verbatim>\<open>Router.#ROUTER_MAP[path] = Router.#ROUTER_MAP[path] ?? {}\<close> and then
  \<^verbatim>\<open>Router.#ROUTER_MAP[path][method] = entry\<close>. When \<open>path\<close> names an inherited function
  (no path that starts with a slash does) the second assignment writes to that built-in
  function. The module is strict code, so it throws a TypeError when the function does
  not take the write: \<^verbatim>\<open>name\<close> and \<^verbatim>\<open>length\<close> are read-only on every function,
  \<^verbatim>\<open>caller\<close> and \<^verbatim>\<open>arguments\<close> have a setter that throws, and \<^verbatim>\<open>prototype\<close> is read-only
  on \<^verbatim>\<open>Object\<close>, which is what \<^verbatim>\<open>constructor\<close> names. Otherwise the entry lands on the
  built-in function and the registry, which then has the own key \<open>path\<close> bound to that
  function, gains no route: \<open>Written_to_builtin\<close>, where this model of the registry ends.
\<close>

datatype 'r registration = Throws exn | Stored 'r | Written_to_builtin

definition builtin_rejects_write :: "string \<Rightarrow> string \<Rightarrow> bool" where
  "builtin_rejects_write path meth =
     (meth = ''name'' \<or> meth = ''length'' \<or> meth = ''caller'' \<or> meth = ''arguments'' \<or>
      (path = ''constructor'' \<and> meth = ''prototype''))"

definition store_entry ::
  "platform \<Rightarrow> ('e, 'z) router_scheme \<Rightarrow> string \<Rightarrow> string \<Rightarrow> 'e
     \<Rightarrow> ('e, 'z) router_scheme registration" where
  "store_entry pf r path meth e =
     (case js_get (ROUTER_MAP r) path of
        Inherited \<Rightarrow>
          if builtin_rejects_write path meth then Throws (Error (fault_message pf Read_only_property))
          else Written_to_builtin
      | Missing \<Rightarrow> Stored (r\<lparr>ROUTER_MAP := js_set (ROUTER_MAP r) path (js_set [] meth e)\<rparr>)
      | Own ms \<Rightarrow> Stored (r\<lparr>ROUTER_MAP := js_set (ROUTER_MAP r) path (js_set ms meth e)\<rparr>))"

definition Route_mod ::
  "platform \<Rightarrow> entry_mod router_mod \<Rightarrow> string \<Rightarrow> string \<Rightarrow> handler_fn slot
     \<Rightarrow> options_mod argument \<Rightarrow> entry_mod router_mod registration" where
  "Route_mod pf r path meth handler options =
     (case destructure_mod options of
        None \<Rightarrow> Throws (Error (fault_message pf Destructure_nullish))
      | Some ob \<Rightarrow>
          store_entry pf r path meth
            \<lparr>handler_mod = handler, verify_mod = opt_verify_mod ob, sign_mod = opt_sign_mod ob\<rparr>)"

definition Route_p0 ::
  "platform \<Rightarrow> entry_p0 router \<Rightarrow> string \<Rightarrow> string \<Rightarrow> handler_fn slot
     \<Rightarrow> options_p0 argument \<Rightarrow> entry_p0 router registration" where
  "Route_p0 pf r path meth handler options =
     (case destructure_p0 options of
        None \<Rightarrow> Throws (Error (fault_message pf Destructure_nullish))
      | Some ob \<Rightarrow>
          if truthy (opt_verify ob) \<and> \<not> is_function (opt_verify ob) then
            Throws (Error ''The \"verify\" option must be a function'')
          else if truthy (opt_sign ob) \<and> \<not> is_function (opt_sign ob) then
            Throws (Error ''The \"sign\" option must be a function'')
          else if truthy (opt_login ob) \<and> \<not> is_function (opt_login ob) then
            Throws (Error ''The \"login\" option must be a function'')
          else store_entry pf r path meth
                 \<lparr>handler_p0 = handler, verify_p0 = opt_verify ob, sign_p0 = opt_sign ob,
                  login_p0 = opt_login ob, raw_p0 = opt_raw ob\<rparr>)"

subsection \<open>Run: the configuration\<close>

definition nullish_or :: "'a option \<Rightarrow> 'a \<Rightarrow> 'a" where
  "nullish_or given current = (case given of None \<Rightarrow> current | Some v \<Rightarrow> v)"

definition Run_p0 :: "headers option \<Rightarrow> string option \<Rightarrow> entry_p0 router \<Rightarrow> entry_p0 router" where
  "Run_p0 default_headers api_prefix r =
     r\<lparr>DEFAULT_HEADERS := nullish_or default_headers (DEFAULT_HEADERS r),
       API_PREFIX := (case api_prefix of None \<Rightarrow> API_PREFIX r | Some p \<Rightarrow> Some p)\<rparr>"

definition Run_mod ::
  "verify_fn slot option \<Rightarrow> hook_fn slot option \<Rightarrow> headers option \<Rightarrow> string option
     \<Rightarrow> entry_mod router_mod \<Rightarrow> entry_mod router_mod" where
  "Run_mod auth_verify auth_sign default_headers api_prefix r =
     r\<lparr>DEFAULT_HEADERS := nullish_or default_headers (DEFAULT_HEADERS r),
       API_PREFIX := (case api_prefix of None \<Rightarrow> API_PREFIX r | Some p \<Rightarrow> Some p),
       AUTH_VERIFY := nullish_or auth_verify (AUTH_VERIFY r),
       AUTH_SIGN := nullish_or auth_sign (AUTH_SIGN r)\<rparr>"

subsection \<open>Run: one request\<close>

datatype outcome = Responded response | Uncaught exn

text \<open>A \<^verbatim>\<open>return new Response(..)\<close> outside the \<^verbatim>\<open>try\<close> block, or inside \<^verbatim>\<open>catch\<close>.\<close>

definition return_new_Response :: "platform \<Rightarrow> string option \<Rightarrow> int \<Rightarrow> headers \<Rightarrow> outcome" where
  "return_new_Response pf b s h =
     (case new_Response pf b s h of Inl e \<Rightarrow> Uncaught e | Inr r \<Rightarrow> Responded r)"

text \<open>
  Up to the \<^verbatim>\<open>try\<close> block (the same text in both files): the URL with the prefix
  stripped, the OPTIONS shortcut, the two registry lookups. \<open>path\<close> starts with a slash
  and so names no inherited property (lemma \<open>route_key_own_or_missing\<close>): the first lookup
  is falsy exactly when it is \<open>Missing\<close>.
\<close>

datatype 'e resolved = Finished outcome | Matched string "'e lookup"

definition stripped_url :: "string option \<Rightarrow> string \<Rightarrow> string" where
  "stripped_url prefix u =
     (case prefix of
        None \<Rightarrow> u
      | Some p \<Rightarrow> if p = [] then u else replace_first p u)"

definition resolve :: "platform \<Rightarrow> ('e, 'z) router_scheme \<Rightarrow> request \<Rightarrow> 'e resolved" where
  "resolve pf r req =
     (case new_URL pf (stripped_url (API_PREFIX r) (req_url req)) of
        Inl e \<Rightarrow> Finished (Uncaught e)
      | Inr U \<Rightarrow>
          if req_method req = ''OPTIONS'' then
            Finished (return_new_Response pf None 200 (DEFAULT_HEADERS r))
          else
            let path = route_key (pathname U) in
            (case js_get (ROUTER_MAP r) path of
               Own ms \<Rightarrow>
                 (case js_get ms (req_method req) of
                    Missing \<Rightarrow>
                      Finished (return_new_Response pf
                        (Some (''Request method '' @ req_method req @ '' does not exist on path '' @ path))
                        405 (DEFAULT_HEADERS r))
                  | found \<Rightarrow> Matched path found)
             | _ \<Rightarrow>
                 Finished (return_new_Response pf
                   (Some (''Request path '' @ path @ '' does not exist'')) 404 (DEFAULT_HEADERS r))))"

text \<open>\<^verbatim>\<open>if (cond) { user = await hook(req); }\<close>, with \<^verbatim>\<open>null\<close> as the value before.\<close>

definition call_verify ::
  "platform \<Rightarrow> bool \<Rightarrow> verify_fn slot \<Rightarrow> request \<Rightarrow> (exn + jsval) \<times> event list" where
  "call_verify pf cond hook req =
     (if cond then
        (case hook of
           Func v \<Rightarrow> (v req, [Verify_called req])
         | _ \<Rightarrow> (Inl (Error (fault_message pf Not_a_function)), []))
      else (Inr VNull, []))"

definition invoke ::
  "platform \<Rightarrow> handler_fn slot \<Rightarrow> payload \<Rightarrow> jsval \<Rightarrow> request \<Rightarrow> (exn + jsval) \<times> event list" where
  "invoke pf handler x user req =
     (case handler of
        Func h \<Rightarrow> (h x user req, [Handler_called x user req])
      | _ \<Rightarrow> (Inl (Error (fault_message pf Not_a_function)), []))"

definition after_read :: "event \<Rightarrow> (exn + jsval) \<times> event list \<Rightarrow> (exn + jsval) \<times> event list" where
  "after_read ev res = (fst res, ev # snd res)"

text \<open>
  The \<^verbatim>\<open>if (req.method === "GET") .. else switch (req.headers.get("content-type"))\<close>
  statement, the same in both files.
\<close>

definition call_handler ::
  "platform \<Rightarrow> handler_fn slot \<Rightarrow> jsval \<Rightarrow> request \<Rightarrow> (exn + jsval) \<times> event list" where
  "call_handler pf handler user req =
     (if req_method req = ''GET'' then
        (case new_URL pf (req_url req) of
           Inl e \<Rightarrow> (Inl e, [])
         | Inr u \<Rightarrow> invoke pf handler (PQuery (Object_fromEntries (searchParams u))) user req)
      else if headers_get (req_headers req) ''content-type'' = Some ''application/json'' then
        (case req_json req of
           None \<Rightarrow> (Inl (new_CustomError ''Request body is not a valid JSON'' (Some 400)), [Read_json])
         | Some b \<Rightarrow> after_read Read_json (invoke pf handler (PJson b) user req))
      else if headers_get (req_headers req) ''content-type'' = Some ''text/plain'' then
        (case req_text req of
           None \<Rightarrow> (Inl (new_CustomError ''Request body is not a valid STRING'' (Some 400)), [Read_text])
         | Some t \<Rightarrow> after_read Read_text (invoke pf handler (PText t) user req))
      else if headers_get (req_headers req) ''content-type'' = Some ''multipart/form-data'' then
        (case req_formData req of
           None \<Rightarrow>
             (Inl (new_CustomError ''Request body is not a valid FORMDATA'' (Some 400)), [Read_formData])
         | Some f \<Rightarrow> after_read Read_formData (invoke pf handler (PForm f) user req))
      else invoke pf handler (PRequest req) user req)"

text \<open>
  The \<^verbatim>\<open>switch (true)\<close> over the handler's result, in the order of its cases: bigint;
  string or String wrapper; null or undefined; Response; \<^verbatim>\<open>typeof result === "object"\<close>;
  boolean; default. In the object case \<open>result\<close> is truthy, so the body is what
  \<^verbatim>\<open>JSON.stringify\<close> gives.
\<close>

definition set_Content_Type :: "string \<Rightarrow> headers \<Rightarrow> headers" where
  "set_Content_Type v h = js_set h ''Content-Type'' v"

definition encode_object :: "platform \<Rightarrow> jsval \<Rightarrow> int \<Rightarrow> headers \<Rightarrow> exn + response" where
  "encode_object pf result responseStatus responseHeaders =
     (case JSON_stringify pf result of
        Inl e \<Rightarrow> Inl e
      | Inr b \<Rightarrow> new_Response pf b responseStatus (set_Content_Type ''application/json'' responseHeaders))"

fun encode :: "platform \<Rightarrow> jsval \<Rightarrow> int \<Rightarrow> headers \<Rightarrow> exn + response" where
  "encode pf (VBigInt n) st h = new_Response pf (Some (bigint_toString n)) st (set_Content_Type ''text/plain'' h)"
| "encode pf (VString s) st h = new_Response pf (Some s) st (set_Content_Type ''text/plain'' h)"
| "encode pf (VStringObject s) st h = new_Response pf (Some s) st (set_Content_Type ''text/plain'' h)"
| "encode pf VNull st h = new_Response pf None st (set_Content_Type ''text/plain'' h)"
| "encode pf VUndefined st h = new_Response pf None st (set_Content_Type ''text/plain'' h)"
| "encode pf (VResponse r) st h = Inr r"
| "encode pf (VObject ps) st h = encode_object pf (VObject ps) st h"
| "encode pf (VArray xs) st h = encode_object pf (VArray xs) st h"
| "encode pf (VOther c) st h = encode_object pf (VOther c) st h"
| "encode pf (VBoolean b) st h = new_Response pf (Some (boolean_toString b)) st (set_Content_Type ''text/plain'' h)"
| "encode pf (VNumber x) st h = Inl (Error ''Return type of controller has no defined processor'')"
| "encode pf (VSymbol d) st h = Inl (Error ''Return type of controller has no defined processor'')"
| "encode pf (VFunction f) st h = Inl (Error ''Return type of controller has no defined processor'')"

text \<open>\<^verbatim>\<open>if (cond) { await hook(response, arg); }\<close>: the response with the headers the hook left.\<close>

definition call_hook ::
  "platform \<Rightarrow> bool \<Rightarrow> hook_fn slot \<Rightarrow> (response \<Rightarrow> jsval \<Rightarrow> event) \<Rightarrow> response \<Rightarrow> jsval
     \<Rightarrow> (exn + response) \<times> event list" where
  "call_hook pf cond hook ev resp arg =
     (if cond then
        (case hook of
           Func f \<Rightarrow>
             (case f resp arg of
                Inl e \<Rightarrow> (Inl e, [ev resp arg])
              | Inr h \<Rightarrow> (Inr (resp\<lparr>headers := h\<rparr>), [ev resp arg]))
         | _ \<Rightarrow> (Inl (Error (fault_message pf Not_a_function)), []))
      else (Inr resp, []))"

text \<open>
  A result that is a Response is the object \<open>response\<close> itself: after the sign hook it
  has the headers that hook left.
\<close>

fun result_as_of :: "response \<Rightarrow> jsval \<Rightarrow> jsval" where
  "result_as_of resp (VResponse r) = VResponse resp"
| "result_as_of resp v = v"

definition responseStatus_of :: "request \<Rightarrow> int" where
  "responseStatus_of req = (if req_method req = ''POST'' then 201 else 200)"

text \<open>The \<^verbatim>\<open>try\<close> block of \<^verbatim>\<open>mod.js\<close>.\<close>

definition try_mod ::
  "platform \<Rightarrow> entry_mod router_mod \<Rightarrow> entry_mod \<Rightarrow> request \<Rightarrow> (exn + response) \<times> event list" where
  "try_mod pf r e req =
     (let responseHeaders = structuredClone (DEFAULT_HEADERS r);
          responseStatus = responseStatus_of req
      in case call_verify pf (truthy (verify_mod e) \<and> truthy (AUTH_VERIFY r)) (AUTH_VERIFY r) req of
           (Inl ex, ev1) \<Rightarrow> (Inl ex, ev1)
         | (Inr user, ev1) \<Rightarrow>
             (case call_handler pf (handler_mod e) user req of
                (Inl ex, ev2) \<Rightarrow> (Inl ex, ev1 @ ev2)
              | (Inr result, ev2) \<Rightarrow>
                  (case encode pf result responseStatus responseHeaders of
                     Inl ex \<Rightarrow> (Inl ex, ev1 @ ev2)
                   | Inr resp \<Rightarrow>
                       (case call_hook pf (truthy (sign_mod e) \<and> truthy (AUTH_SIGN r)) (AUTH_SIGN r)
                               Sign_called resp result of
                          (Inl ex, ev3) \<Rightarrow> (Inl ex, ev1 @ ev2 @ ev3)
                        | (Inr resp1, ev3) \<Rightarrow> (Inr resp1, ev1 @ ev2 @ ev3)))))"

text \<open>The \<^verbatim>\<open>try\<close> block of \<^verbatim>\<open>part_000\<close>.\<close>

definition try_p0 ::
  "platform \<Rightarrow> entry_p0 router \<Rightarrow> entry_p0 \<Rightarrow> request \<Rightarrow> (exn + response) \<times> event list" where
  "try_p0 pf r e req =
     (let responseHeaders = structuredClone (DEFAULT_HEADERS r);
          responseStatus = responseStatus_of req
      in case call_verify pf (truthy (verify_p0 e)) (verify_p0 e) req of
           (Inl ex, ev1) \<Rightarrow> (Inl ex, ev1)
         | (Inr payload, ev1) \<Rightarrow>
             (case call_handler pf (handler_p0 e) payload req of
                (Inl ex, ev2) \<Rightarrow> (Inl ex, ev1 @ ev2)
              | (Inr result, ev2) \<Rightarrow>
                  (case encode pf result responseStatus responseHeaders of
                     Inl ex \<Rightarrow> (Inl ex, ev1 @ ev2)
                   | Inr resp \<Rightarrow>
                       (case call_hook pf (truthy (sign_p0 e)) (sign_p0 e) Sign_called resp payload of
                          (Inl ex, ev3) \<Rightarrow> (Inl ex, ev1 @ ev2 @ ev3)
                        | (Inr resp1, ev3) \<Rightarrow>
                            (case call_hook pf (truthy (login_p0 e)) (login_p0 e) Login_called resp1
                                    (result_as_of resp1 result) of
                               (Inl ex, ev4) \<Rightarrow> (Inl ex, ev1 @ ev2 @ ev3 @ ev4)
                             | (Inr resp2, ev4) \<Rightarrow> (Inr resp2, ev1 @ ev2 @ ev3 @ ev4))))))"

text \<open>
  The \<^verbatim>\<open>catch (e)\<close> block, the same in both files. \<^verbatim>\<open>Object.assign\<close> writes into its
  first argument, which is \<^verbatim>\<open>Router.#DEFAULT_HEADERS\<close> itself: the second component is the
  template after the block. \<^verbatim>\<open>e instanceof CustomError\<close> is false for everything but a
  CustomError; the other branch logs \<open>e\<close> and reads \<^verbatim>\<open>e.message\<close>, which for a thrown
  \<^verbatim>\<open>null\<close> or \<^verbatim>\<open>undefined\<close> is a TypeError that leaves the block.
\<close>

definition catch_block :: "platform \<Rightarrow> headers \<Rightarrow> exn \<Rightarrow> outcome \<times> headers \<times> event list" where
  "catch_block pf dh e =
     (case e of
        CustomError message httpStatusCode \<Rightarrow>
          (let dh' = Object_assign dh [(''Content-Type'', ''text/plain'')]
           in (return_new_Response pf (Some message) httpStatusCode dh', dh', []))
      | Error message \<Rightarrow> (return_new_Response pf (Some message) 500 dh, dh, [Console_error e])
      | Thrown_value message \<Rightarrow> (return_new_Response pf message 500 dh, dh, [Console_error e])
      | Thrown_nullish \<Rightarrow>
          (Uncaught (Error (fault_message pf Property_of_nullish)), dh, [Console_error e]))"

text \<open>
  What one request gives: the response or the error that escapes to the listener, the
  router's fields afterwards, and the calls made, in order.
\<close>

record 'r served =
  answer :: outcome
  router_after :: 'r
  events :: "event list"

definition finish ::
  "platform \<Rightarrow> ('e, 'z) router_scheme \<Rightarrow> (exn + response) \<times> event list
     \<Rightarrow> ('e, 'z) router_scheme served" where
  "finish pf r tried =
     (case tried of
        (Inr resp, ev) \<Rightarrow> \<lparr>answer = Responded resp, router_after = r, events = ev\<rparr>
      | (Inl ex, ev) \<Rightarrow>
          (case catch_block pf (DEFAULT_HEADERS r) ex of
             (out, dh, ev') \<Rightarrow>
               \<lparr>answer = out, router_after = r\<lparr>DEFAULT_HEADERS := dh\<rparr>, events = ev @ ev'\<rparr>))"

text \<open>The callback given to \<^verbatim>\<open>Deno.serve\<close> in \<^verbatim>\<open>mod.js\<close>.\<close>

definition serve_mod :: "platform \<Rightarrow> entry_mod router_mod \<Rightarrow> request \<Rightarrow> entry_mod router_mod served" where
  "serve_mod pf r req =
     (case resolve pf r req of
        Finished out \<Rightarrow> \<lparr>answer = out, router_after = r, events = []\<rparr>
      | Matched path found \<Rightarrow>
          finish pf r (try_mod pf r (entry_mod_of found) req))"

text \<open>The callback given to \<^verbatim>\<open>Deno.serve\<close> in \<^verbatim>\<open>part_000\<close>.\<close>

definition serve_p0 :: "platform \<Rightarrow> entry_p0 router \<Rightarrow> request \<Rightarrow> entry_p0 router served" where
  "serve_p0 pf r req =
     (case resolve pf r req of
        Finished out \<Rightarrow> \<lparr>answer = out, router_after = r, events = []\<rparr>
      | Matched path found \<Rightarrow>
          finish pf r (try_p0 pf r (entry_p0_of found) req))"

subsection \<open>Observations used in the statements\<close>

text \<open>The entry registered as an own property for a path and a method.\<close>

definition entry_at :: "(string \<times> (string \<times> 'e) list) list \<Rightarrow> string \<Rightarrow> string \<Rightarrow> 'e option" where
  "entry_at m path meth = (case map_of m path of None \<Rightarrow> None | Some ms \<Rightarrow> map_of ms meth)"

fun is_handler_call :: "event \<Rightarrow> bool" where
  "is_handler_call (Handler_called x u q) = True"
| "is_handler_call ev = False"

fun is_body_read :: "event \<Rightarrow> bool" where
  "is_body_read Read_json = True"
| "is_body_read Read_text = True"
| "is_body_read Read_formData = True"
| "is_body_read ev = False"

text \<open>A status that \<^verbatim>\<open>new Response\<close> accepts together with a body.\<close>

definition status_with_body :: "int \<Rightarrow> bool" where
  "status_with_body s = (200 \<le> s \<and> s \<le> 599 \<and> s \<noteq> 204 \<and> s \<noteq> 205 \<and> s \<noteq> 304)"

text \<open>
  An event of a request whose body is not to be read: no body read, and a handler call
  only with the request object itself as payload.
\<close>

fun raw_only :: "request \<Rightarrow> event \<Rightarrow> bool" where
  "raw_only req (Handler_called x u q) = (x = PRequest req)"
| "raw_only req Read_json = False"
| "raw_only req Read_text = False"
| "raw_only req Read_formData = False"
| "raw_only req ev = True"






subsection \<open>An example platform and example routers\<close>

text \<open>
  A platform for the concrete runs below. Its URL parser accepts
  \<^verbatim>\<open>http://authority/path?query\<close> without escapes and rejects, as every parser of the
  standard does, a string with no scheme; its serialiser knows the empty object and the
  empty array and throws on the rest.
\<close>

definition demo_query :: "string \<Rightarrow> (string \<times> string) list" where
  "demo_query q =
     map (\<lambda>kv. (takeWhile (\<lambda>c. c \<noteq> CHR ''='') kv, drop 1 (dropWhile (\<lambda>c. c \<noteq> CHR ''='') kv)))
       (filter (\<lambda>kv. kv \<noteq> []) (split (CHR ''&'') q))"

definition demo_new_URL :: "string \<Rightarrow> exn + URL" where
  "demo_new_URL s =
     (if take 7 s = ''http://'' then
        (let rest = dropWhile (\<lambda>c. c \<noteq> CHR ''/'' \<and> c \<noteq> CHR ''?'') (drop 7 s);
             p = takeWhile (\<lambda>c. c \<noteq> CHR ''?'') rest;
             q = drop 1 (dropWhile (\<lambda>c. c \<noteq> CHR ''?'') rest)
         in Inr \<lparr>pathname = (if p = [] then ''/'' else p), searchParams = demo_query q\<rparr>)
      else Inl (Error ''Invalid URL''))"

definition demo_JSON_stringify :: "jsval \<Rightarrow> exn + string option" where
  "demo_JSON_stringify v =
     (case v of
        VObject [] \<Rightarrow> Inr (Some ''{}'')
      | VArray [] \<Rightarrow> Inr (Some ''[]'')
      | _ \<Rightarrow> Inl (Error ''not serialised by the example platform''))"

definition demo_fault_message :: "fault \<Rightarrow> string" where
  "demo_fault_message f =
     (case f of
        Not_a_function \<Rightarrow> ''is not a function''
      | Status_out_of_range \<Rightarrow> ''The status provided is outside the range [200, 599]''
      | Null_body_status \<Rightarrow> ''Response with null body status cannot have body''
      | Property_of_nullish \<Rightarrow> ''Cannot read properties of null''
      | Destructure_nullish \<Rightarrow> ''Cannot destructure a null value''
      | Read_only_property \<Rightarrow> ''Cannot assign to read only property'')"

definition demo_platform :: platform where
  "demo_platform =
     \<lparr>new_URL = demo_new_URL, JSON_stringify = demo_JSON_stringify,
      fault_message = demo_fault_message\<rparr>"

definition cors :: headers where
  "cors = [(''Access-Control-Allow-Origin'', ''*'')]"

text \<open>User code of the examples.\<close>

definition hello :: handler_fn where
  "hello x user req = Inr (VString ''hello'')"

definition answer_42 :: handler_fn where
  "answer_42 x user req = Inr (VNumber (Finite 42 0))"

definition teapot :: handler_fn where
  "teapot x user req = Inr (VResponse \<lparr>body = Some ''tea'', status = 418, headers = []\<rparr>)"

definition alice :: verify_fn where
  "alice req = Inr (VString ''alice'')"

definition forbid :: verify_fn where
  "forbid req = Inl (CustomError ''Forbidden'' 403)"

definition throws_null :: verify_fn where
  "throws_null req = Inl Thrown_nullish"

definition throws_text :: handler_fn where
  "throws_text x user req = Inl (Thrown_value None)"

definition stamp :: "string \<Rightarrow> hook_fn" where
  "stamp name resp v = Inr (js_set (headers resp) name ''yes'')"

text \<open>
  \<^verbatim>\<open>part_000\<close>: \<^verbatim>\<open>/users\<close> with an open POST and PUT and a GET that signs and logs in,
  \<^verbatim>\<open>/admin\<close> with a POST that no caller passes, \<^verbatim>\<open>/answer\<close> with a POST that returns a
  number, \<^verbatim>\<open>/tea\<close> with a POST that returns a Response.
\<close>

definition open_p0 :: "handler_fn \<Rightarrow> entry_p0" where
  "open_p0 h = \<lparr>handler_p0 = Func h, verify_p0 = Falsy, sign_p0 = Falsy, login_p0 = Falsy, raw_p0 = Falsy\<rparr>"

definition signed_p0 :: entry_p0 where
  "signed_p0 =
     \<lparr>handler_p0 = Func hello, verify_p0 = Func alice, sign_p0 = Func (stamp ''X-Signed''),
      login_p0 = Func (stamp ''X-Login''), raw_p0 = Falsy\<rparr>"

definition guarded_p0 :: entry_p0 where
  "guarded_p0 =
     \<lparr>handler_p0 = Func hello, verify_p0 = Func forbid, sign_p0 = Falsy, login_p0 = Falsy, raw_p0 = Falsy\<rparr>"

definition demo_p0 :: "entry_p0 router" where
  "demo_p0 =
     \<lparr>DEFAULT_HEADERS = cors, API_PREFIX = None,
      ROUTER_MAP =
        [(''/users'', [(''POST'', open_p0 hello), (''PUT'', open_p0 hello), (''GET'', signed_p0)]),
         (''/admin'', [(''POST'', guarded_p0)]),
         (''/answer'', [(''POST'', open_p0 answer_42)]),
         (''/tea'', [(''POST'', open_p0 teapot)])]\<rparr>"

text \<open>\<^verbatim>\<open>mod.js\<close>: the same routes, with flags; the process-wide hooks are given per run.\<close>

definition flags_mod :: "handler_fn \<Rightarrow> bool \<Rightarrow> bool \<Rightarrow> entry_mod" where
  "flags_mod h v s =
     \<lparr>handler_mod = Func h, verify_mod = (if v then Truthy_nonfunc else Falsy),
      sign_mod = (if s then Truthy_nonfunc else Falsy)\<rparr>"

definition demo_mod :: "verify_fn slot \<Rightarrow> hook_fn slot \<Rightarrow> entry_mod router_mod" where
  "demo_mod av asg =
     \<lparr>DEFAULT_HEADERS = cors, API_PREFIX = None,
      ROUTER_MAP =
        [(''/users'',
           [(''POST'', flags_mod hello False False), (''PUT'', flags_mod hello False False),
            (''GET'', flags_mod hello True True)]),
         (''/admin'', [(''POST'', flags_mod hello True False)]),
         (''/answer'', [(''POST'', flags_mod answer_42 False False)]),
         (''/tea'', [(''POST'', flags_mod teapot False False)])],
      AUTH_VERIFY = av, AUTH_SIGN = asg\<rparr>"

definition demo_request :: "string \<Rightarrow> string \<Rightarrow> string option \<Rightarrow> request" where
  "demo_request m u ct =
     \<lparr>req_method = m, req_url = u,
      req_headers = (case ct of None \<Rightarrow> [] | Some c \<Rightarrow> [(''content-type'', c)]),
      req_json = None, req_text = Some ''{'', req_formData = None\<rparr>"

section \<open>Properties\<close>

subsection \<open>Responses that are always built\<close>

lemma new_Response_ok:
  "status_with_body s \<Longrightarrow> new_Response pf b s h = Inr \<lparr>body = b, status = s, headers = h\<rparr>"
  by (simp add: new_Response_def status_with_body_def)

lemma new_Response_default:
  "new_Response pf b (responseStatus_of req) h =
     Inr \<lparr>body = b, status = responseStatus_of req, headers = h\<rparr>"
  by (simp add: new_Response_def responseStatus_of_def)

lemma new_Response_status:
  "new_Response pf b s h = Inr resp \<Longrightarrow> status resp = s \<and> body resp = b \<and> headers resp = h"
  by (auto simp: new_Response_def split: if_splits)

lemma return_new_Response_ok:
  "status_with_body s \<Longrightarrow>
   return_new_Response pf b s h = Responded \<lparr>body = b, status = s, headers = h\<rparr>"
  by (simp add: return_new_Response_def new_Response_ok)


lemma status_with_body_simps [simp]:
  "status_with_body 400" "status_with_body 403" "status_with_body 404" "status_with_body 405"
  "status_with_body 500" "status_with_body 200" "status_with_body 201"
  by (simp_all add: status_with_body_def)

subsection \<open>The route key\<close>

lemma route_key_slash: "\<exists>seg. route_key pn = CHR ''/'' # seg"
  by (simp add: route_key_def)

lemma slash_not_inherited: "CHR ''/'' # seg \<notin> set Object_prototype_names"
  by (simp add: Object_prototype_names_def)

lemma route_key_own_or_missing: "js_get m (route_key pn) \<noteq> Inherited"
proof -
  obtain seg where "route_key pn = CHR ''/'' # seg"
    using route_key_slash by blast
  then show ?thesis
    by (simp add: js_get_def slash_not_inherited split: option.splits)
qed

subsection \<open>After the try block\<close>

lemma finish_returned:
  "finish pf r (Inr resp, ev) = \<lparr>answer = Responded resp, router_after = r, events = ev\<rparr>"
  by (simp add: finish_def)

lemma finish_CustomError:
  "status_with_body s \<Longrightarrow>
   finish pf r (Inl (CustomError m s), ev) =
     \<lparr>answer = Responded \<lparr>body = Some m, status = s,
         headers = Object_assign (DEFAULT_HEADERS r) [(''Content-Type'', ''text/plain'')]\<rparr>,
      router_after = r\<lparr>DEFAULT_HEADERS := Object_assign (DEFAULT_HEADERS r) [(''Content-Type'', ''text/plain'')]\<rparr>,
      events = ev\<rparr>"
  by (simp add: finish_def catch_block_def return_new_Response_ok Let_def)

lemma finish_Error:
  "finish pf r (Inl (Error m), ev) =
     \<lparr>answer = Responded \<lparr>body = Some m, status = 500, headers = DEFAULT_HEADERS r\<rparr>,
      router_after = r, events = ev @ [Console_error (Error m)]\<rparr>"
  by (simp add: finish_def catch_block_def return_new_Response_ok)

lemma serve_p0_matched:
  "resolve pf r req = Matched path found \<Longrightarrow>
   serve_p0 pf r req = finish pf r (try_p0 pf r (entry_p0_of found) req)"
  by (simp add: serve_p0_def)

lemma serve_mod_matched:
  "resolve pf r req = Matched path found \<Longrightarrow>
   serve_mod pf r req = finish pf r (try_mod pf r (entry_mod_of found) req)"
  by (simp add: serve_mod_def)

subsection \<open>The encoder and the hooks keep the status\<close>

lemma encode_object_status:
  "encode_object pf v st h = Inr resp \<Longrightarrow> status resp = st"
  by (auto simp: encode_object_def split: sum.splits dest: new_Response_status)

lemma encode_status:
  "encode pf result st h = Inr resp \<Longrightarrow>
   status resp = (case result of VResponse x \<Rightarrow> status x | _ \<Rightarrow> st)"
  by (cases result) (auto dest: new_Response_status encode_object_status)

lemma call_hook_status:
  "call_hook pf c hook mk resp arg = (Inr resp', ev) \<Longrightarrow>
   status resp' = status resp \<and> body resp' = body resp"
  by (auto simp: call_hook_def split: if_splits slot.splits sum.splits)

lemma try_p0_status:
  assumes "try_p0 pf r e req = (Inr resp, ev)"
    and "call_verify pf (truthy (verify_p0 e)) (verify_p0 e) req = (Inr payload, eva)"
    and "call_handler pf (handler_p0 e) payload req = (Inr result, evb)"
  shows "status resp = (case result of VResponse x \<Rightarrow> status x | _ \<Rightarrow> responseStatus_of req)"
proof -
  from assms obtain enc r1 e3 e4 where
    enc: "encode pf result (responseStatus_of req) (structuredClone (DEFAULT_HEADERS r)) = Inr enc"
    and s: "call_hook pf (truthy (sign_p0 e)) (sign_p0 e) Sign_called enc payload = (Inr r1, e3)"
    and l: "call_hook pf (truthy (login_p0 e)) (login_p0 e) Login_called r1 (result_as_of r1 result) = (Inr resp, e4)"
    by (auto simp: try_p0_def Let_def split: sum.splits prod.splits)
  have "status resp = status enc"
    using call_hook_status[OF s] call_hook_status[OF l] by simp
  then show ?thesis
    using encode_status[OF enc] by simp
qed

lemma try_mod_status:
  assumes "try_mod pf r e req = (Inr resp, ev)"
    and "call_verify pf (truthy (verify_mod e) \<and> truthy (AUTH_VERIFY r)) (AUTH_VERIFY r) req = (Inr user, eva)"
    and "call_handler pf (handler_mod e) user req = (Inr result, evb)"
  shows "status resp = (case result of VResponse x \<Rightarrow> status x | _ \<Rightarrow> responseStatus_of req)"
proof -
  from assms obtain enc e3 where
    enc: "encode pf result (responseStatus_of req) (structuredClone (DEFAULT_HEADERS r)) = Inr enc"
    and s: "call_hook pf (truthy (sign_mod e) \<and> truthy (AUTH_SIGN r)) (AUTH_SIGN r) Sign_called enc result = (Inr resp, e3)"
    by (auto simp: try_mod_def Let_def split: sum.splits prod.splits)
  show ?thesis
    using call_hook_status[OF s] encode_status[OF enc] by simp
qed

subsection \<open>Running the examples\<close>

lemmas plain_object_defs =
  js_get_def js_set_def Object_assign_def Object_fromEntries_def Object_prototype_names_def
  own_keys_order_def is_array_index_def digit_value_def numeric_value_def
  structuredClone_def headers_get_def

lemmas demo_defs =
  demo_platform_def demo_new_URL_def demo_query_def demo_JSON_stringify_def
  demo_fault_message_def demo_request_def demo_p0_def demo_mod_def cors_def open_p0_def
  signed_p0_def guarded_p0_def flags_mod_def hello_def answer_42_def teapot_def alice_def
  forbid_def stamp_def throws_null_def throws_text_def

lemmas request_defs =
  resolve_def stripped_url_def route_key_def return_new_Response_def new_Response_def
  call_verify_def invoke_def after_read_def call_handler_def set_Content_Type_def
  encode_object_def call_hook_def responseStatus_of_def new_CustomError_def
  boolean_toString_def catch_block_def finish_def entry_mod_of_def entry_p0_of_def
  inherited_mod_def inherited_p0_def

lemmas run_defs =
  serve_p0_def serve_mod_def try_p0_def try_mod_def request_defs plain_object_defs demo_defs

subsection \<open>The default status\<close>

lemma status_rule_p0:
  assumes "resolve pf r req = Matched path (Own e)"
    and "call_verify pf (truthy (verify_p0 e)) (verify_p0 e) req = (Inr payload, eva)"
    and "call_handler pf (handler_p0 e) payload req = (Inr result, evb)"
    and "try_p0 pf r e req = (Inr resp, ev)"
  shows "answer (serve_p0 pf r req) = Responded resp \<and>
         status resp =
           (case result of VResponse x \<Rightarrow> status x
            | _ \<Rightarrow> if req_method req = ''POST'' then 201 else 200)"
proof -
  have "serve_p0 pf r req = finish pf r (try_p0 pf r e req)"
    using serve_p0_matched[OF assms(1)] by (simp add: entry_p0_of_def)
  then have "answer (serve_p0 pf r req) = Responded resp"
    by (simp add: assms(4) finish_returned)
  moreover have "status resp =
      (case result of VResponse x \<Rightarrow> status x | _ \<Rightarrow> if req_method req = ''POST'' then 201 else 200)"
    using try_p0_status[OF assms(4) assms(2) assms(3)] unfolding responseStatus_of_def .
  ultimately show ?thesis
    by (rule conjI)
qed

lemma status_rule_mod:
  assumes "resolve pf r req = Matched path (Own e)"
    and "call_verify pf (truthy (verify_mod e) \<and> truthy (AUTH_VERIFY r)) (AUTH_VERIFY r) req = (Inr user, eva)"
    and "call_handler pf (handler_mod e) user req = (Inr result, evb)"
    and "try_mod pf r e req = (Inr resp, ev)"
  shows "answer (serve_mod pf r req) = Responded resp \<and>
         status resp =
           (case result of VResponse x \<Rightarrow> status x
            | _ \<Rightarrow> if req_method req = ''POST'' then 201 else 200)"
proof -
  have "serve_mod pf r req = finish pf r (try_mod pf r e req)"
    using serve_mod_matched[OF assms(1)] by (simp add: entry_mod_of_def)
  then have "answer (serve_mod pf r req) = Responded resp"
    by (simp add: assms(4) finish_returned)
  moreover have "status resp =
      (case result of VResponse x \<Rightarrow> status x | _ \<Rightarrow> if req_method req = ''POST'' then 201 else 200)"
    using try_mod_status[OF assms(4) assms(2) assms(3)] unfolding responseStatus_of_def .
  ultimately show ?thesis
    by (rule conjI)
qed

text \<open>
  C1, as the code has it: when a request is matched, the verify step and the handler
  return and nothing in the \<^verbatim>\<open>try\<close> block throws, the response's status is 201 for the
  method POST and 200 for every other method (PUT, PATCH and DELETE among them), unless
  the handler returned a Response object, whose status is then the response's. Both
  variants.
\<close>

theorem default_status_is_201_for_POST_only:
  "(resolve pf r0 req = Matched path0 (Own e0) \<longrightarrow>
    call_verify pf (truthy (verify_p0 e0)) (verify_p0 e0) req = (Inr payload, eva0) \<longrightarrow>
    call_handler pf (handler_p0 e0) payload req = (Inr result0, evb0) \<longrightarrow>
    try_p0 pf r0 e0 req = (Inr resp0, ev0) \<longrightarrow>
    answer (serve_p0 pf r0 req) = Responded resp0 \<and>
    status resp0 =
      (case result0 of VResponse x \<Rightarrow> status x
       | _ \<Rightarrow> if req_method req = ''POST'' then 201 else 200))
   \<and>
   (resolve pf r1 req = Matched path1 (Own e1) \<longrightarrow>
    call_verify pf (truthy (verify_mod e1) \<and> truthy (AUTH_VERIFY r1)) (AUTH_VERIFY r1) req = (Inr user, eva1) \<longrightarrow>
    call_handler pf (handler_mod e1) user req = (Inr result1, evb1) \<longrightarrow>
    try_mod pf r1 e1 req = (Inr resp1, ev1) \<longrightarrow>
    answer (serve_mod pf r1 req) = Responded resp1 \<and>
    status resp1 =
      (case result1 of VResponse x \<Rightarrow> status x
       | _ \<Rightarrow> if req_method req = ''POST'' then 201 else 200))"
  using status_rule_p0[of pf r0 req path0 e0 payload eva0 result0 evb0 resp0 ev0]
    status_rule_mod[of pf r1 req path1 e1 user eva1 result1 evb1 resp1 ev1]
  by blast

text \<open>
  A run of each kind: POST \<^verbatim>\<open>/users\<close> in \<^verbatim>\<open>part_000\<close> gives 201, POST \<^verbatim>\<open>/tea\<close> in
  \<^verbatim>\<open>mod.js\<close> gives the handler's own 418.
\<close>

theorem default_status_is_201_for_POST_only_witness:
  "resolve demo_platform demo_p0 (demo_request ''POST'' ''http://localhost:8000/users'' None)
     = Matched ''/users'' (Own (open_p0 hello)) \<and>
   call_verify demo_platform (truthy (verify_p0 (open_p0 hello))) (verify_p0 (open_p0 hello))
       (demo_request ''POST'' ''http://localhost:8000/users'' None) = (Inr VNull, []) \<and>
   call_handler demo_platform (handler_p0 (open_p0 hello)) VNull
       (demo_request ''POST'' ''http://localhost:8000/users'' None)
     = (Inr (VString ''hello''),
        [Handler_called (PRequest (demo_request ''POST'' ''http://localhost:8000/users'' None)) VNull
           (demo_request ''POST'' ''http://localhost:8000/users'' None)]) \<and>
   answer (serve_p0 demo_platform demo_p0 (demo_request ''POST'' ''http://localhost:8000/users'' None))
     = Responded \<lparr>body = Some ''hello'', status = 201,
         headers = [(''Access-Control-Allow-Origin'', ''*''), (''Content-Type'', ''text/plain'')]\<rparr> \<and>
   resolve demo_platform (demo_mod Falsy Falsy) (demo_request ''POST'' ''http://localhost:8000/tea'' None)
     = Matched ''/tea'' (Own (flags_mod teapot False False)) \<and>
   answer (serve_mod demo_platform (demo_mod Falsy Falsy)
       (demo_request ''POST'' ''http://localhost:8000/tea'' None))
     = Responded \<lparr>body = Some ''tea'', status = 418, headers = []\<rparr>"
proof -
  let ?q = "demo_request ''POST'' ''http://localhost:8000/users'' None"
  let ?t = "demo_request ''POST'' ''http://localhost:8000/tea'' None"
  let ?resp = "\<lparr>body = Some ''hello'', status = 201,
         headers = [(''Access-Control-Allow-Origin'', ''*''), (''Content-Type'', ''text/plain'')]\<rparr>"
  let ?tea = "\<lparr>body = Some ''tea'', status = 418, headers = []\<rparr>"
  have a1: "resolve demo_platform demo_p0 ?q = Matched ''/users'' (Own (open_p0 hello))"
    by (simp add: request_defs plain_object_defs demo_defs)
  have a2: "call_verify demo_platform (truthy (verify_p0 (open_p0 hello))) (verify_p0 (open_p0 hello)) ?q
      = (Inr VNull, [])"
    by (simp add: request_defs demo_defs)
  have a3: "call_handler demo_platform (handler_p0 (open_p0 hello)) VNull ?q
      = (Inr (VString ''hello''), [Handler_called (PRequest ?q) VNull ?q])"
    by (simp add: request_defs plain_object_defs demo_defs)
  have a4: "try_p0 demo_platform demo_p0 (open_p0 hello) ?q = (Inr ?resp, [Handler_called (PRequest ?q) VNull ?q])"
    by (simp add: try_p0_def request_defs plain_object_defs demo_defs)
  have b1: "resolve demo_platform (demo_mod Falsy Falsy) ?t = Matched ''/tea'' (Own (flags_mod teapot False False))"
    by (simp add: request_defs plain_object_defs demo_defs)
  have b2: "call_verify demo_platform
        (truthy (verify_mod (flags_mod teapot False False)) \<and> truthy (AUTH_VERIFY (demo_mod Falsy Falsy)))
        (AUTH_VERIFY (demo_mod Falsy Falsy)) ?t = (Inr VNull, [])"
    by (simp add: request_defs demo_defs)
  have b3: "call_handler demo_platform (handler_mod (flags_mod teapot False False)) VNull ?t
      = (Inr (VResponse ?tea), [Handler_called (PRequest ?t) VNull ?t])"
    by (simp add: request_defs plain_object_defs demo_defs)
  have b4: "try_mod demo_platform (demo_mod Falsy Falsy) (flags_mod teapot False False) ?t
      = (Inr ?tea, [Handler_called (PRequest ?t) VNull ?t])"
    by (simp add: try_mod_def request_defs plain_object_defs demo_defs)
  have c1: "answer (serve_p0 demo_platform demo_p0 ?q) = Responded ?resp"
    using default_status_is_201_for_POST_only[THEN conjunct1, rule_format, OF a1 a2 a3 a4] by simp
  have c2: "answer (serve_mod demo_platform (demo_mod Falsy Falsy) ?t) = Responded ?tea"
    using default_status_is_201_for_POST_only[THEN conjunct2, rule_format, OF b1 b2 b3 b4] by simp
  show ?thesis
    using a1 a2 a3 c1 b1 c2 by simp
qed


text \<open>
  C1 as stated fails: PUT carries a body and is no retrieval method, and the response to a
  PUT whose handler returns a string has status 200, in both variants.
\<close>

theorem PUT_defaults_to_200:
  "req_method (demo_request ''PUT'' ''http://localhost:8000/users'' None) \<noteq> ''GET'' \<and>
   answer (serve_p0 demo_platform demo_p0 (demo_request ''PUT'' ''http://localhost:8000/users'' None))
     = Responded \<lparr>body = Some ''hello'', status = 200,
         headers = [(''Access-Control-Allow-Origin'', ''*''), (''Content-Type'', ''text/plain'')]\<rparr> \<and>
   answer (serve_mod demo_platform (demo_mod Falsy Falsy)
       (demo_request ''PUT'' ''http://localhost:8000/users'' None))
     = Responded \<lparr>body = Some ''hello'', status = 200,
         headers = [(''Access-Control-Allow-Origin'', ''*''), (''Content-Type'', ''text/plain'')]\<rparr>"
  by (simp add: run_defs)

subsection \<open>What the verify step logs\<close>

lemma call_verify_events:
  "call_verify pf c hook req = (res, ev) \<Longrightarrow> ev = [] \<or> ev = [Verify_called req]"
  by (auto simp: call_verify_def split: if_splits slot.splits)

lemma call_verify_no_handler_call:
  "call_verify pf c hook req = (res, ev) \<Longrightarrow> \<not> list_ex is_handler_call ev"
  by (drule call_verify_events) auto

lemma call_verify_no_body_read:
  "call_verify pf c hook req = (res, ev) \<Longrightarrow> \<not> list_ex is_body_read ev"
  by (drule call_verify_events) auto

subsection \<open>A verify hook that refuses\<close>

lemma verify_refuses_p0:
  assumes "resolve pf r req = Matched path (Own e)"
    and "verify_p0 e = Func v"
    and "v req = Inl (CustomError m 403)"
  shows "answer (serve_p0 pf r req) =
           Responded \<lparr>body = Some m, status = 403,
             headers = Object_assign (DEFAULT_HEADERS r) [(''Content-Type'', ''text/plain'')]\<rparr> \<and>
         events (serve_p0 pf r req) = [Verify_called req]"
proof -
  have "try_p0 pf r e req = (Inl (CustomError m 403), [Verify_called req])"
    using assms(2,3) by (simp add: try_p0_def call_verify_def)
  then have "serve_p0 pf r req = finish pf r (Inl (CustomError m 403), [Verify_called req])"
    using serve_p0_matched[OF assms(1)] by (simp add: entry_p0_of_def)
  then show ?thesis
    by (simp add: finish_CustomError)
qed

lemma verify_refuses_mod:
  assumes "resolve pf r req = Matched path (Own e)"
    and "truthy (verify_mod e)"
    and "AUTH_VERIFY r = Func v"
    and "v req = Inl (CustomError m 403)"
  shows "answer (serve_mod pf r req) =
           Responded \<lparr>body = Some m, status = 403,
             headers = Object_assign (DEFAULT_HEADERS r) [(''Content-Type'', ''text/plain'')]\<rparr> \<and>
         events (serve_mod pf r req) = [Verify_called req]"
proof -
  have "try_mod pf r e req = (Inl (CustomError m 403), [Verify_called req])"
    using assms(2,3,4) by (simp add: try_mod_def call_verify_def)
  then have "serve_mod pf r req = finish pf r (Inl (CustomError m 403), [Verify_called req])"
    using serve_mod_matched[OF assms(1)] by (simp add: entry_mod_of_def)
  then show ?thesis
    by (simp add: finish_CustomError)
qed

text \<open>
  C8: when the verify hook of the matched route throws a CustomError with status 403,
  the response has status 403 and the error's message as its body, and the only call made
  for the request is the one to the verify hook: the handler is not invoked. In
  \<^verbatim>\<open>part_000\<close> the hook is the route's own, in \<^verbatim>\<open>mod.js\<close> it is \<^verbatim>\<open>auth_verify\<close>, run for a
  route whose \<^verbatim>\<open>verify\<close> flag is set.
\<close>

theorem verify_403_stops_before_handler:
  "(resolve pf r0 req = Matched path0 (Own e0) \<longrightarrow>
    verify_p0 e0 = Func v \<longrightarrow>
    v req = Inl (CustomError m 403) \<longrightarrow>
    answer (serve_p0 pf r0 req) =
      Responded \<lparr>body = Some m, status = 403,
        headers = Object_assign (DEFAULT_HEADERS r0) [(''Content-Type'', ''text/plain'')]\<rparr> \<and>
    events (serve_p0 pf r0 req) = [Verify_called req] \<and>
    \<not> list_ex is_handler_call (events (serve_p0 pf r0 req)))
   \<and>
   (resolve pf r1 req = Matched path1 (Own e1) \<longrightarrow>
    truthy (verify_mod e1) \<longrightarrow>
    AUTH_VERIFY r1 = Func v \<longrightarrow>
    v req = Inl (CustomError m 403) \<longrightarrow>
    answer (serve_mod pf r1 req) =
      Responded \<lparr>body = Some m, status = 403,
        headers = Object_assign (DEFAULT_HEADERS r1) [(''Content-Type'', ''text/plain'')]\<rparr> \<and>
    events (serve_mod pf r1 req) = [Verify_called req] \<and>
    \<not> list_ex is_handler_call (events (serve_mod pf r1 req)))"
  using verify_refuses_p0[of pf r0 req path0 e0 v m]
    verify_refuses_mod[of pf r1 req path1 e1 v m]
  by simp

text \<open>POST \<^verbatim>\<open>/admin\<close>, whose verify hook refuses every caller, in both variants.\<close>

theorem verify_403_stops_before_handler_witness:
  "resolve demo_platform demo_p0 (demo_request ''POST'' ''http://localhost:8000/admin'' None)
     = Matched ''/admin'' (Own guarded_p0) \<and>
   verify_p0 guarded_p0 = Func forbid \<and>
   forbid (demo_request ''POST'' ''http://localhost:8000/admin'' None) = Inl (CustomError ''Forbidden'' 403) \<and>
   answer (serve_p0 demo_platform demo_p0 (demo_request ''POST'' ''http://localhost:8000/admin'' None))
     = Responded \<lparr>body = Some ''Forbidden'', status = 403,
         headers = [(''Access-Control-Allow-Origin'', ''*''), (''Content-Type'', ''text/plain'')]\<rparr> \<and>
   events (serve_p0 demo_platform demo_p0 (demo_request ''POST'' ''http://localhost:8000/admin'' None))
     = [Verify_called (demo_request ''POST'' ''http://localhost:8000/admin'' None)] \<and>
   resolve demo_platform (demo_mod (Func forbid) Falsy)
       (demo_request ''POST'' ''http://localhost:8000/admin'' None)
     = Matched ''/admin'' (Own (flags_mod hello True False)) \<and>
   truthy (verify_mod (flags_mod hello True False)) \<and>
   AUTH_VERIFY (demo_mod (Func forbid) Falsy) = Func forbid \<and>
   answer (serve_mod demo_platform (demo_mod (Func forbid) Falsy)
       (demo_request ''POST'' ''http://localhost:8000/admin'' None))
     = Responded \<lparr>body = Some ''Forbidden'', status = 403,
         headers = [(''Access-Control-Allow-Origin'', ''*''), (''Content-Type'', ''text/plain'')]\<rparr> \<and>
   events (serve_mod demo_platform (demo_mod (Func forbid) Falsy)
       (demo_request ''POST'' ''http://localhost:8000/admin'' None))
     = [Verify_called (demo_request ''POST'' ''http://localhost:8000/admin'' None)]"
proof -
  let ?q = "demo_request ''POST'' ''http://localhost:8000/admin'' None"
  have a1: "resolve demo_platform demo_p0 ?q = Matched ''/admin'' (Own guarded_p0)"
    by (simp add: request_defs plain_object_defs demo_defs)
  have a2: "verify_p0 guarded_p0 = Func forbid"
    by (simp add: guarded_p0_def)
  have a3: "forbid ?q = Inl (CustomError ''Forbidden'' 403)"
    by (simp add: forbid_def)
  have b1: "resolve demo_platform (demo_mod (Func forbid) Falsy) ?q
      = Matched ''/admin'' (Own (flags_mod hello True False))"
    by (simp add: request_defs plain_object_defs demo_defs)
  have b2: "truthy (verify_mod (flags_mod hello True False))"
    by (simp add: flags_mod_def)
  have b3: "AUTH_VERIFY (demo_mod (Func forbid) Falsy) = Func forbid"
    by (simp add: demo_mod_def)
  have h: "Object_assign cors [(''Content-Type'', ''text/plain'')]
      = [(''Access-Control-Allow-Origin'', ''*''), (''Content-Type'', ''text/plain'')]"
    by (simp add: plain_object_defs cors_def)
  have d0: "DEFAULT_HEADERS demo_p0 = cors" "DEFAULT_HEADERS (demo_mod (Func forbid) Falsy) = cors"
    by (simp_all add: demo_p0_def demo_mod_def)
  note c1 = verify_403_stops_before_handler[THEN conjunct1, rule_format, OF a1 a2 a3]
  note c2 = verify_403_stops_before_handler[THEN conjunct2, rule_format, OF b1 b2 b3 a3]
  show ?thesis
    using a1 a2 a3 b1 b2 b3 c1 c2 by (simp add: h d0)
qed

subsection \<open>A body that does not decode\<close>

lemma call_handler_undecodable:
  assumes "req_method req \<noteq> ''GET''"
    and "headers_get (req_headers req) ''content-type'' = Some ct"
    and "(ct = ''application/json'' \<and> req_json req = None \<and> msg = ''Request body is not a valid JSON'') \<or>
         (ct = ''text/plain'' \<and> req_text req = None \<and> msg = ''Request body is not a valid STRING'') \<or>
         (ct = ''multipart/form-data'' \<and> req_formData req = None \<and> msg = ''Request body is not a valid FORMDATA'')"
  shows "\<exists>rd. call_handler pf handler user req = (Inl (CustomError msg 400), [rd]) \<and> is_body_read rd"
  using assms(3)
proof (elim disjE conjE)
  assume "ct = ''application/json''" "req_json req = None" "msg = ''Request body is not a valid JSON''"
  then have "call_handler pf handler user req = (Inl (CustomError msg 400), [Read_json])"
    using assms(1,2) by (simp add: call_handler_def new_CustomError_def)
  then show ?thesis by simp
next
  assume "ct = ''text/plain''" "req_text req = None" "msg = ''Request body is not a valid STRING''"
  then have "call_handler pf handler user req = (Inl (CustomError msg 400), [Read_text])"
    using assms(1,2) by (simp add: call_handler_def new_CustomError_def)
  then show ?thesis by simp
next
  assume "ct = ''multipart/form-data''" "req_formData req = None"
    "msg = ''Request body is not a valid FORMDATA''"
  then have "call_handler pf handler user req = (Inl (CustomError msg 400), [Read_formData])"
    using assms(1,2) by (simp add: call_handler_def new_CustomError_def)
  then show ?thesis by simp
qed

lemma undecodable_p0:
  assumes "req_method req \<noteq> ''GET''"
    and "headers_get (req_headers req) ''content-type'' = Some ct"
    and "(ct = ''application/json'' \<and> req_json req = None \<and> msg = ''Request body is not a valid JSON'') \<or>
         (ct = ''text/plain'' \<and> req_text req = None \<and> msg = ''Request body is not a valid STRING'') \<or>
         (ct = ''multipart/form-data'' \<and> req_formData req = None \<and> msg = ''Request body is not a valid FORMDATA'')"
    and "resolve pf r req = Matched path found"
    and "call_verify pf (truthy (verify_p0 (entry_p0_of found))) (verify_p0 (entry_p0_of found)) req
           = (Inr payload, eva)"
  shows "answer (serve_p0 pf r req) =
           Responded \<lparr>body = Some msg, status = 400,
             headers = Object_assign (DEFAULT_HEADERS r) [(''Content-Type'', ''text/plain'')]\<rparr> \<and>
         \<not> list_ex is_handler_call (events (serve_p0 pf r req))"
proof -
  obtain rd where rd: "call_handler pf (handler_p0 (entry_p0_of found)) payload req
      = (Inl (CustomError msg 400), [rd])" "is_body_read rd"
    using call_handler_undecodable[OF assms(1-3)] by blast
  have "try_p0 pf r (entry_p0_of found) req = (Inl (CustomError msg 400), eva @ [rd])"
    by (simp add: try_p0_def assms(5) rd(1))
  then have "serve_p0 pf r req = finish pf r (Inl (CustomError msg 400), eva @ [rd])"
    using serve_p0_matched[OF assms(4)] by simp
  moreover have "\<not> list_ex is_handler_call (eva @ [rd])"
    using call_verify_no_handler_call[OF assms(5)] rd(2) by (cases rd) auto
  ultimately show ?thesis
    by (simp add: finish_CustomError)
qed

lemma undecodable_mod:
  assumes "req_method req \<noteq> ''GET''"
    and "headers_get (req_headers req) ''content-type'' = Some ct"
    and "(ct = ''application/json'' \<and> req_json req = None \<and> msg = ''Request body is not a valid JSON'') \<or>
         (ct = ''text/plain'' \<and> req_text req = None \<and> msg = ''Request body is not a valid STRING'') \<or>
         (ct = ''multipart/form-data'' \<and> req_formData req = None \<and> msg = ''Request body is not a valid FORMDATA'')"
    and "resolve pf r req = Matched path found"
    and "call_verify pf (truthy (verify_mod (entry_mod_of found)) \<and> truthy (AUTH_VERIFY r)) (AUTH_VERIFY r) req
           = (Inr user, eva)"
  shows "answer (serve_mod pf r req) =
           Responded \<lparr>body = Some msg, status = 400,
             headers = Object_assign (DEFAULT_HEADERS r) [(''Content-Type'', ''text/plain'')]\<rparr> \<and>
         \<not> list_ex is_handler_call (events (serve_mod pf r req))"
proof -
  obtain rd where rd: "call_handler pf (handler_mod (entry_mod_of found)) user req
      = (Inl (CustomError msg 400), [rd])" "is_body_read rd"
    using call_handler_undecodable[OF assms(1-3)] by blast
  have "try_mod pf r (entry_mod_of found) req = (Inl (CustomError msg 400), eva @ [rd])"
    by (simp add: try_mod_def assms(5) rd(1))
  then have "serve_mod pf r req = finish pf r (Inl (CustomError msg 400), eva @ [rd])"
    using serve_mod_matched[OF assms(4)] by simp
  moreover have "\<not> list_ex is_handler_call (eva @ [rd])"
    using call_verify_no_handler_call[OF assms(5)] rd(2) by (cases rd) auto
  ultimately show ?thesis
    by (simp add: finish_CustomError)
qed

text \<open>
  C7, as the code has it: a request that is matched, is not a GET, has passed the verify
  step (which runs before the body is read) and declares exactly \<^verbatim>\<open>application/json\<close>, \<^verbatim>\<open>text/plain\<close> or
  \<^verbatim>\<open>multipart/form-data\<close>, and whose body the reader of that type rejects, is answered with
  status 400 and the message of that type, and its handler is not invoked. Both variants.
\<close>

theorem undecodable_body_is_400:
  assumes "req_method req \<noteq> ''GET''"
    and "headers_get (req_headers req) ''content-type'' = Some ct"
    and "(ct = ''application/json'' \<and> req_json req = None \<and> msg = ''Request body is not a valid JSON'') \<or>
         (ct = ''text/plain'' \<and> req_text req = None \<and> msg = ''Request body is not a valid STRING'') \<or>
         (ct = ''multipart/form-data'' \<and> req_formData req = None \<and> msg = ''Request body is not a valid FORMDATA'')"
  shows
  "(resolve pf r0 req = Matched path0 found0 \<longrightarrow>
    call_verify pf (truthy (verify_p0 (entry_p0_of found0))) (verify_p0 (entry_p0_of found0)) req
      = (Inr payload, eva0) \<longrightarrow>
    answer (serve_p0 pf r0 req) =
      Responded \<lparr>body = Some msg, status = 400,
        headers = Object_assign (DEFAULT_HEADERS r0) [(''Content-Type'', ''text/plain'')]\<rparr> \<and>
    \<not> list_ex is_handler_call (events (serve_p0 pf r0 req)))
   \<and>
   (resolve pf r1 req = Matched path1 found1 \<longrightarrow>
    call_verify pf (truthy (verify_mod (entry_mod_of found1)) \<and> truthy (AUTH_VERIFY r1)) (AUTH_VERIFY r1) req
      = (Inr user, eva1) \<longrightarrow>
    answer (serve_mod pf r1 req) =
      Responded \<lparr>body = Some msg, status = 400,
        headers = Object_assign (DEFAULT_HEADERS r1) [(''Content-Type'', ''text/plain'')]\<rparr> \<and>
    \<not> list_ex is_handler_call (events (serve_mod pf r1 req)))"
  using undecodable_p0[OF assms, of pf r0 path0 found0 payload eva0]
    undecodable_mod[OF assms, of pf r1 path1 found1 user eva1]
  by blast

text \<open>
  POST \<^verbatim>\<open>/users\<close> with \<^verbatim>\<open>application/json\<close> in \<^verbatim>\<open>part_000\<close> and with
  \<^verbatim>\<open>multipart/form-data\<close> in \<^verbatim>\<open>mod.js\<close>; the example request's body is the text \<^verbatim>\<open>{\<close>.
\<close>

theorem undecodable_body_is_400_witness:
  "req_method (demo_request ''POST'' ''http://localhost:8000/users'' (Some ''application/json'')) \<noteq> ''GET'' \<and>
   headers_get (req_headers (demo_request ''POST'' ''http://localhost:8000/users'' (Some ''application/json'')))
       ''content-type'' = Some ''application/json'' \<and>
   req_json (demo_request ''POST'' ''http://localhost:8000/users'' (Some ''application/json'')) = None \<and>
   resolve demo_platform demo_p0 (demo_request ''POST'' ''http://localhost:8000/users'' (Some ''application/json''))
     = Matched ''/users'' (Own (open_p0 hello)) \<and>
   answer (serve_p0 demo_platform demo_p0
       (demo_request ''POST'' ''http://localhost:8000/users'' (Some ''application/json'')))
     = Responded \<lparr>body = Some ''Request body is not a valid JSON'', status = 400,
         headers = [(''Access-Control-Allow-Origin'', ''*''), (''Content-Type'', ''text/plain'')]\<rparr> \<and>
   \<not> list_ex is_handler_call (events (serve_p0 demo_platform demo_p0
       (demo_request ''POST'' ''http://localhost:8000/users'' (Some ''application/json'')))) \<and>
   req_formData (demo_request ''POST'' ''http://localhost:8000/users'' (Some ''multipart/form-data'')) = None \<and>
   resolve demo_platform (demo_mod Falsy Falsy)
       (demo_request ''POST'' ''http://localhost:8000/users'' (Some ''multipart/form-data''))
     = Matched ''/users'' (Own (flags_mod hello False False)) \<and>
   answer (serve_mod demo_platform (demo_mod Falsy Falsy)
       (demo_request ''POST'' ''http://localhost:8000/users'' (Some ''multipart/form-data'')))
     = Responded \<lparr>body = Some ''Request body is not a valid FORMDATA'', status = 400,
         headers = [(''Access-Control-Allow-Origin'', ''*''), (''Content-Type'', ''text/plain'')]\<rparr> \<and>
   \<not> list_ex is_handler_call (events (serve_mod demo_platform (demo_mod Falsy Falsy)
       (demo_request ''POST'' ''http://localhost:8000/users'' (Some ''multipart/form-data''))))"
proof -
  let ?j = "demo_request ''POST'' ''http://localhost:8000/users'' (Some ''application/json'')"
  let ?f = "demo_request ''POST'' ''http://localhost:8000/users'' (Some ''multipart/form-data'')"
  have j1: "req_method ?j \<noteq> ''GET''"
    and j2: "headers_get (req_headers ?j) ''content-type'' = Some ''application/json''"
    and j3: "req_json ?j = None"
    by (simp_all add: demo_request_def headers_get_def)
  have f1: "req_method ?f \<noteq> ''GET''"
    and f2: "headers_get (req_headers ?f) ''content-type'' = Some ''multipart/form-data''"
    and f3: "req_formData ?f = None"
    by (simp_all add: demo_request_def headers_get_def)
  have a1: "resolve demo_platform demo_p0 ?j = Matched ''/users'' (Own (open_p0 hello))"
    by (simp add: request_defs plain_object_defs demo_defs)
  have a2: "call_verify demo_platform (truthy (verify_p0 (entry_p0_of (Own (open_p0 hello)))))
      (verify_p0 (entry_p0_of (Own (open_p0 hello)))) ?j = (Inr VNull, [])"
    by (simp add: call_verify_def entry_p0_of_def open_p0_def)
  have b1: "resolve demo_platform (demo_mod Falsy Falsy) ?f
      = Matched ''/users'' (Own (flags_mod hello False False))"
    by (simp add: request_defs plain_object_defs demo_defs)
  have b2: "call_verify demo_platform
      (truthy (verify_mod (entry_mod_of (Own (flags_mod hello False False)))) \<and>
       truthy (AUTH_VERIFY (demo_mod Falsy Falsy)))
      (AUTH_VERIFY (demo_mod Falsy Falsy)) ?f = (Inr VNull, [])"
    by (simp add: call_verify_def entry_mod_of_def flags_mod_def demo_mod_def)
  have h: "Object_assign cors [(''Content-Type'', ''text/plain'')]
      = [(''Access-Control-Allow-Origin'', ''*''), (''Content-Type'', ''text/plain'')]"
    by (simp add: plain_object_defs cors_def)
  have d0: "DEFAULT_HEADERS demo_p0 = cors" "DEFAULT_HEADERS (demo_mod Falsy Falsy) = cors"
    by (simp_all add: demo_p0_def demo_mod_def)
  have sj: "(''application/json'' = ''application/json'' \<and> req_json ?j = None \<and>
        ''Request body is not a valid JSON'' = ''Request body is not a valid JSON'') \<or>
      (''application/json'' = ''text/plain'' \<and> req_text ?j = None \<and>
        ''Request body is not a valid JSON'' = ''Request body is not a valid STRING'') \<or>
      (''application/json'' = ''multipart/form-data'' \<and> req_formData ?j = None \<and>
        ''Request body is not a valid JSON'' = ''Request body is not a valid FORMDATA'')"
    using j3 by simp
  have sf: "(''multipart/form-data'' = ''application/json'' \<and> req_json ?f = None \<and>
        ''Request body is not a valid FORMDATA'' = ''Request body is not a valid JSON'') \<or>
      (''multipart/form-data'' = ''text/plain'' \<and> req_text ?f = None \<and>
        ''Request body is not a valid FORMDATA'' = ''Request body is not a valid STRING'') \<or>
      (''multipart/form-data'' = ''multipart/form-data'' \<and> req_formData ?f = None \<and>
        ''Request body is not a valid FORMDATA'' = ''Request body is not a valid FORMDATA'')"
    using f3 by simp
  note c1 = undecodable_body_is_400[OF j1 j2 sj, THEN conjunct1, rule_format, OF a1 a2]
  note c2 = undecodable_body_is_400[OF f1 f2 sf, THEN conjunct2, rule_format, OF b1 b2]
  show ?thesis
    using j1 j2 j3 f3 a1 b1 c1 c2 by (simp add: h d0)
qed

subsection \<open>What the try block and the catch block log\<close>

lemma call_hook_events:
  "call_hook pf c hook mk resp arg = (res, ev) \<Longrightarrow> ev = [] \<or> ev = [mk resp arg]"
  by (auto simp: call_hook_def split: if_splits slot.splits sum.splits)

lemma sign_call_quiet:
  "call_hook pf c hook Sign_called resp arg = (res, ev) \<Longrightarrow>
   \<not> list_ex is_body_read ev \<and> \<not> list_ex is_handler_call ev"
  by (drule call_hook_events) auto

lemma login_call_quiet:
  "call_hook pf c hook Login_called resp arg = (res, ev) \<Longrightarrow>
   \<not> list_ex is_body_read ev \<and> \<not> list_ex is_handler_call ev"
  by (drule call_hook_events) auto

lemma try_p0_events:
  assumes "call_verify pf (truthy (verify_p0 e)) (verify_p0 e) req = (Inr payload, eva)"
    and "call_handler pf (handler_p0 e) payload req = (out, evb)"
  shows "\<exists>rest. snd (try_p0 pf r e req) = eva @ evb @ rest \<and> \<not> list_ex is_body_read rest"
proof (cases out)
  case (Inl ex)
  then show ?thesis using assms by (simp add: try_p0_def)
next
  case (Inr result)
  show ?thesis
  proof (cases "encode pf result (responseStatus_of req) (structuredClone (DEFAULT_HEADERS r))")
    case (Inl ex)
    then show ?thesis using assms Inr by (simp add: try_p0_def)
  next
    case enc: (Inr resp)
    obtain sres e3 where s: "call_hook pf (truthy (sign_p0 e)) (sign_p0 e) Sign_called resp payload = (sres, e3)"
      by (cases "call_hook pf (truthy (sign_p0 e)) (sign_p0 e) Sign_called resp payload")
    show ?thesis
    proof (cases sres)
      case (Inl ex)
      then show ?thesis
        using assms Inr enc s sign_call_quiet[OF s] by (simp add: try_p0_def)
    next
      case sok: (Inr resp1)
      obtain lres e4 where l: "call_hook pf (truthy (login_p0 e)) (login_p0 e) Login_called resp1
          (result_as_of resp1 result) = (lres, e4)"
        by (cases "call_hook pf (truthy (login_p0 e)) (login_p0 e) Login_called resp1 (result_as_of resp1 result)")
      have "snd (try_p0 pf r e req) = eva @ evb @ (e3 @ e4)"
        using assms Inr enc s sok l by (cases lres) (simp_all add: try_p0_def)
      moreover have "\<not> list_ex is_body_read (e3 @ e4)"
        using sign_call_quiet[OF s] login_call_quiet[OF l] by simp
      ultimately show ?thesis by blast
    qed
  qed
qed

lemma try_mod_events:
  assumes "call_verify pf (truthy (verify_mod e) \<and> truthy (AUTH_VERIFY r)) (AUTH_VERIFY r) req = (Inr user, eva)"
    and "call_handler pf (handler_mod e) user req = (out, evb)"
  shows "\<exists>rest. snd (try_mod pf r e req) = eva @ evb @ rest \<and> \<not> list_ex is_body_read rest"
proof (cases out)
  case (Inl ex)
  then show ?thesis using assms by (simp add: try_mod_def)
next
  case (Inr result)
  show ?thesis
  proof (cases "encode pf result (responseStatus_of req) (structuredClone (DEFAULT_HEADERS r))")
    case (Inl ex)
    then show ?thesis using assms Inr by (simp add: try_mod_def)
  next
    case enc: (Inr resp)
    obtain sres e3 where s: "call_hook pf (truthy (sign_mod e) \<and> truthy (AUTH_SIGN r)) (AUTH_SIGN r)
        Sign_called resp result = (sres, e3)"
      by (cases "call_hook pf (truthy (sign_mod e) \<and> truthy (AUTH_SIGN r)) (AUTH_SIGN r) Sign_called resp result")
    have "snd (try_mod pf r e req) = eva @ evb @ e3"
      using assms Inr enc s by (cases sres) (simp_all add: try_mod_def)
    then show ?thesis
      using sign_call_quiet[OF s] by blast
  qed
qed

lemma finish_events:
  "\<exists>tail. events (finish pf r (res, ev)) = ev @ tail \<and> \<not> list_ex is_body_read tail"
proof (cases res)
  case (Inl ex)
  then show ?thesis
    by (cases ex) (simp_all add: finish_def catch_block_def Let_def)
next
  case (Inr resp)
  then show ?thesis by (simp add: finish_def)
qed

subsection \<open>A content type that selects no decoder\<close>

lemma call_handler_raw:
  assumes "req_method req \<noteq> ''GET''"
    and "headers_get (req_headers req) ''content-type'' \<noteq> Some ''application/json''"
    and "headers_get (req_headers req) ''content-type'' \<noteq> Some ''text/plain''"
    and "headers_get (req_headers req) ''content-type'' \<noteq> Some ''multipart/form-data''"
  shows "call_handler pf (Func h) user req =
           (h (PRequest req) user req, [Handler_called (PRequest req) user req])"
  using assms by (simp add: call_handler_def invoke_def)

lemma raw_p0:
  assumes "req_method req \<noteq> ''GET''"
    and "headers_get (req_headers req) ''content-type'' \<noteq> Some ''application/json''"
    and "headers_get (req_headers req) ''content-type'' \<noteq> Some ''text/plain''"
    and "headers_get (req_headers req) ''content-type'' \<noteq> Some ''multipart/form-data''"
    and "resolve pf r req = Matched path (Own e)"
    and "handler_p0 e = Func h"
    and "call_verify pf (truthy (verify_p0 e)) (verify_p0 e) req = (Inr payload, eva)"
  shows "(\<exists>rest. events (serve_p0 pf r req) = eva @ Handler_called (PRequest req) payload req # rest) \<and>
         \<not> list_ex is_body_read (events (serve_p0 pf r req))"
proof -
  have ch: "call_handler pf (handler_p0 e) payload req =
      (h (PRequest req) payload req, [Handler_called (PRequest req) payload req])"
    using call_handler_raw[OF assms(1-4)] assms(6) by simp
  obtain rest where rest: "snd (try_p0 pf r e req) = eva @ [Handler_called (PRequest req) payload req] @ rest"
      "\<not> list_ex is_body_read rest"
    using try_p0_events[OF assms(7) ch] by blast
  obtain tail where tail: "events (finish pf r (try_p0 pf r e req)) = snd (try_p0 pf r e req) @ tail"
      "\<not> list_ex is_body_read tail"
    using finish_events[of pf r "fst (try_p0 pf r e req)" "snd (try_p0 pf r e req)"] by auto
  have ev: "events (serve_p0 pf r req) = eva @ Handler_called (PRequest req) payload req # (rest @ tail)"
    using serve_p0_matched[OF assms(5)] rest(1) tail(1) by (simp add: entry_p0_of_def)
  moreover have "\<not> list_ex is_body_read (eva @ Handler_called (PRequest req) payload req # (rest @ tail))"
    using call_verify_no_body_read[OF assms(7)] rest(2) tail(2) by simp
  ultimately show ?thesis by auto
qed

lemma raw_mod:
  assumes "req_method req \<noteq> ''GET''"
    and "headers_get (req_headers req) ''content-type'' \<noteq> Some ''application/json''"
    and "headers_get (req_headers req) ''content-type'' \<noteq> Some ''text/plain''"
    and "headers_get (req_headers req) ''content-type'' \<noteq> Some ''multipart/form-data''"
    and "resolve pf r req = Matched path (Own e)"
    and "handler_mod e = Func h"
    and "call_verify pf (truthy (verify_mod e) \<and> truthy (AUTH_VERIFY r)) (AUTH_VERIFY r) req = (Inr user, eva)"
  shows "(\<exists>rest. events (serve_mod pf r req) = eva @ Handler_called (PRequest req) user req # rest) \<and>
         \<not> list_ex is_body_read (events (serve_mod pf r req))"
proof -
  have ch: "call_handler pf (handler_mod e) user req =
      (h (PRequest req) user req, [Handler_called (PRequest req) user req])"
    using call_handler_raw[OF assms(1-4)] assms(6) by simp
  obtain rest where rest: "snd (try_mod pf r e req) = eva @ [Handler_called (PRequest req) user req] @ rest"
      "\<not> list_ex is_body_read rest"
    using try_mod_events[OF assms(7) ch] by blast
  obtain tail where tail: "events (finish pf r (try_mod pf r e req)) = snd (try_mod pf r e req) @ tail"
      "\<not> list_ex is_body_read tail"
    using finish_events[of pf r "fst (try_mod pf r e req)" "snd (try_mod pf r e req)"] by auto
  have ev: "events (serve_mod pf r req) = eva @ Handler_called (PRequest req) user req # (rest @ tail)"
    using serve_mod_matched[OF assms(5)] rest(1) tail(1) by (simp add: entry_mod_of_def)
  moreover have "\<not> list_ex is_body_read (eva @ Handler_called (PRequest req) user req # (rest @ tail))"
    using call_verify_no_body_read[OF assms(7)] rest(2) tail(2) by simp
  ultimately show ?thesis by auto
qed

subsection \<open>A result the encoder has no case for\<close>

lemma no_processor_p0:
  assumes "result = VNumber x \<or> result = VSymbol d \<or> result = VFunction f"
    and "resolve pf r req = Matched path (Own e)"
    and "call_verify pf (truthy (verify_p0 e)) (verify_p0 e) req = (Inr payload, eva)"
    and "call_handler pf (handler_p0 e) payload req = (Inr result, evb)"
  shows "answer (serve_p0 pf r req) =
           Responded \<lparr>body = Some ''Return type of controller has no defined processor'',
             status = 500, headers = DEFAULT_HEADERS r\<rparr> \<and>
         events (serve_p0 pf r req) =
           eva @ evb @ [Console_error (Error ''Return type of controller has no defined processor'')]"
proof -
  have enc: "encode pf result (responseStatus_of req) (structuredClone (DEFAULT_HEADERS r)) =
      Inl (Error ''Return type of controller has no defined processor'')"
    using assms(1) by auto
  have "try_p0 pf r e req = (Inl (Error ''Return type of controller has no defined processor''), eva @ evb)"
    by (simp add: try_p0_def assms(3,4) enc)
  then show ?thesis
    using serve_p0_matched[OF assms(2)] by (simp add: entry_p0_of_def finish_Error)
qed

lemma no_processor_mod:
  assumes "result = VNumber x \<or> result = VSymbol d \<or> result = VFunction f"
    and "resolve pf r req = Matched path (Own e)"
    and "call_verify pf (truthy (verify_mod e) \<and> truthy (AUTH_VERIFY r)) (AUTH_VERIFY r) req = (Inr user, eva)"
    and "call_handler pf (handler_mod e) user req = (Inr result, evb)"
  shows "answer (serve_mod pf r req) =
           Responded \<lparr>body = Some ''Return type of controller has no defined processor'',
             status = 500, headers = DEFAULT_HEADERS r\<rparr> \<and>
         events (serve_mod pf r req) =
           eva @ evb @ [Console_error (Error ''Return type of controller has no defined processor'')]"
proof -
  have enc: "encode pf result (responseStatus_of req) (structuredClone (DEFAULT_HEADERS r)) =
      Inl (Error ''Return type of controller has no defined processor'')"
    using assms(1) by auto
  have "try_mod pf r e req = (Inl (Error ''Return type of controller has no defined processor''), eva @ evb)"
    by (simp add: try_mod_def assms(3,4) enc)
  then show ?thesis
    using serve_mod_matched[OF assms(2)] by (simp add: entry_mod_of_def finish_Error)
qed

text \<open>
  C10: when the handler of a matched request returns a number that is no bigint, a symbol
  or a function, the encoder takes its \<^verbatim>\<open>default\<close> branch: the response has status 500,
  the body \<^verbatim>\<open>Return type of controller has no defined processor\<close> and the header template
  as it is, the error is logged, and no sign or login hook runs. Both variants.
\<close>

theorem unencodable_result_is_500:
  assumes "result = VNumber x \<or> result = VSymbol d \<or> result = VFunction f"
  shows
  "(resolve pf r0 req = Matched path0 (Own e0) \<longrightarrow>
    call_verify pf (truthy (verify_p0 e0)) (verify_p0 e0) req = (Inr payload, eva0) \<longrightarrow>
    call_handler pf (handler_p0 e0) payload req = (Inr result, evb0) \<longrightarrow>
    answer (serve_p0 pf r0 req) =
      Responded \<lparr>body = Some ''Return type of controller has no defined processor'',
        status = 500, headers = DEFAULT_HEADERS r0\<rparr> \<and>
    events (serve_p0 pf r0 req) =
      eva0 @ evb0 @ [Console_error (Error ''Return type of controller has no defined processor'')])
   \<and>
   (resolve pf r1 req = Matched path1 (Own e1) \<longrightarrow>
    call_verify pf (truthy (verify_mod e1) \<and> truthy (AUTH_VERIFY r1)) (AUTH_VERIFY r1) req = (Inr user, eva1) \<longrightarrow>
    call_handler pf (handler_mod e1) user req = (Inr result, evb1) \<longrightarrow>
    answer (serve_mod pf r1 req) =
      Responded \<lparr>body = Some ''Return type of controller has no defined processor'',
        status = 500, headers = DEFAULT_HEADERS r1\<rparr> \<and>
    events (serve_mod pf r1 req) =
      eva1 @ evb1 @ [Console_error (Error ''Return type of controller has no defined processor'')])"
  using no_processor_p0[OF assms, of pf r0 req path0 e0 payload eva0 evb0]
    no_processor_mod[OF assms, of pf r1 req path1 e1 user eva1 evb1]
  by blast

text \<open>POST \<^verbatim>\<open>/answer\<close>, whose handler returns the number 42.\<close>

theorem unencodable_result_is_500_witness:
  "resolve demo_platform demo_p0 (demo_request ''POST'' ''http://localhost:8000/answer'' None)
     = Matched ''/answer'' (Own (open_p0 answer_42)) \<and>
   call_handler demo_platform (handler_p0 (open_p0 answer_42)) VNull
       (demo_request ''POST'' ''http://localhost:8000/answer'' None)
     = (Inr (VNumber (Finite 42 0)),
        [Handler_called (PRequest (demo_request ''POST'' ''http://localhost:8000/answer'' None)) VNull
           (demo_request ''POST'' ''http://localhost:8000/answer'' None)]) \<and>
   answer (serve_p0 demo_platform demo_p0 (demo_request ''POST'' ''http://localhost:8000/answer'' None))
     = Responded \<lparr>body = Some ''Return type of controller has no defined processor'', status = 500,
         headers = [(''Access-Control-Allow-Origin'', ''*'')]\<rparr> \<and>
   events (serve_p0 demo_platform demo_p0 (demo_request ''POST'' ''http://localhost:8000/answer'' None))
     = [Handler_called (PRequest (demo_request ''POST'' ''http://localhost:8000/answer'' None)) VNull
          (demo_request ''POST'' ''http://localhost:8000/answer'' None),
        Console_error (Error ''Return type of controller has no defined processor'')] \<and>
   resolve demo_platform (demo_mod Falsy Falsy) (demo_request ''POST'' ''http://localhost:8000/answer'' None)
     = Matched ''/answer'' (Own (flags_mod answer_42 False False)) \<and>
   answer (serve_mod demo_platform (demo_mod Falsy Falsy)
       (demo_request ''POST'' ''http://localhost:8000/answer'' None))
     = Responded \<lparr>body = Some ''Return type of controller has no defined processor'', status = 500,
         headers = [(''Access-Control-Allow-Origin'', ''*'')]\<rparr>"
proof -
  let ?q = "demo_request ''POST'' ''http://localhost:8000/answer'' None"
  have n: "VNumber (Finite 42 0) = VNumber (Finite 42 0) \<or> VNumber (Finite 42 0) = VSymbol []
      \<or> VNumber (Finite 42 0) = VFunction []"
    by simp
  have a1: "resolve demo_platform demo_p0 ?q = Matched ''/answer'' (Own (open_p0 answer_42))"
    by (simp add: request_defs plain_object_defs demo_defs)
  have a2: "call_verify demo_platform (truthy (verify_p0 (open_p0 answer_42))) (verify_p0 (open_p0 answer_42)) ?q
      = (Inr VNull, [])"
    by (simp add: call_verify_def open_p0_def)
  have a3: "call_handler demo_platform (handler_p0 (open_p0 answer_42)) VNull ?q
      = (Inr (VNumber (Finite 42 0)), [Handler_called (PRequest ?q) VNull ?q])"
    by (simp add: request_defs plain_object_defs demo_defs)
  have b1: "resolve demo_platform (demo_mod Falsy Falsy) ?q
      = Matched ''/answer'' (Own (flags_mod answer_42 False False))"
    by (simp add: request_defs plain_object_defs demo_defs)
  have b2: "call_verify demo_platform
      (truthy (verify_mod (flags_mod answer_42 False False)) \<and> truthy (AUTH_VERIFY (demo_mod Falsy Falsy)))
      (AUTH_VERIFY (demo_mod Falsy Falsy)) ?q = (Inr VNull, [])"
    by (simp add: call_verify_def flags_mod_def demo_mod_def)
  have b3: "call_handler demo_platform (handler_mod (flags_mod answer_42 False False)) VNull ?q
      = (Inr (VNumber (Finite 42 0)), [Handler_called (PRequest ?q) VNull ?q])"
    by (simp add: request_defs plain_object_defs demo_defs)
  have d0: "DEFAULT_HEADERS demo_p0 = [(''Access-Control-Allow-Origin'', ''*'')]"
    "DEFAULT_HEADERS (demo_mod Falsy Falsy) = [(''Access-Control-Allow-Origin'', ''*'')]"
    by (simp_all add: demo_p0_def demo_mod_def cors_def)
  note c1 = unencodable_result_is_500[OF n, THEN conjunct1, rule_format, OF a1 a2 a3]
  note c2 = unencodable_result_is_500[OF n, THEN conjunct2, rule_format, OF b1 b2 b3]
  show ?thesis
    using a1 a3 b1 c1 c2 by (simp add: d0)
qed

subsection \<open>The header template across a request\<close>

lemma finish_template:
  "DEFAULT_HEADERS (router_after (finish pf r (res, ev))) =
     (case res of
        Inl (CustomError m s) \<Rightarrow> Object_assign (DEFAULT_HEADERS r) [(''Content-Type'', ''text/plain'')]
      | _ \<Rightarrow> DEFAULT_HEADERS r)"
  by (simp add: finish_def catch_block_def Let_def split: sum.splits exn.splits)

lemma Object_assign_Content_Type:
  "map_of (Object_assign h [(''Content-Type'', ''text/plain'')]) ''Content-Type'' = Some ''text/plain''"
  by (simp add: Object_assign_def js_set_def update_conv')

text \<open>
  Outside the catch of a CustomError the template is left as it is: the early answers and
  the plain-Error branch pass it to \<^verbatim>\<open>new Response\<close>, the try block works on a clone.
\<close>

lemma serve_p0_template:
  "DEFAULT_HEADERS (router_after (serve_p0 pf r req)) = DEFAULT_HEADERS r \<or>
   DEFAULT_HEADERS (router_after (serve_p0 pf r req)) =
     Object_assign (DEFAULT_HEADERS r) [(''Content-Type'', ''text/plain'')]"
proof (cases "resolve pf r req")
  case (Finished out)
  then show ?thesis by (simp add: serve_p0_def)
next
  case (Matched path found)
  obtain res ev where "try_p0 pf r (entry_p0_of found) req = (res, ev)"
    by (cases "try_p0 pf r (entry_p0_of found) req")
  then show ?thesis
    using Matched finish_template[of pf r res ev]
    by (auto simp: serve_p0_def split: sum.splits exn.splits)
qed

lemma serve_mod_template:
  "DEFAULT_HEADERS (router_after (serve_mod pf r req)) = DEFAULT_HEADERS r \<or>
   DEFAULT_HEADERS (router_after (serve_mod pf r req)) =
     Object_assign (DEFAULT_HEADERS r) [(''Content-Type'', ''text/plain'')]"
proof (cases "resolve pf r req")
  case (Finished out)
  then show ?thesis by (simp add: serve_mod_def)
next
  case (Matched path found)
  obtain res ev where "try_mod pf r (entry_mod_of found) req = (res, ev)"
    by (cases "try_mod pf r (entry_mod_of found) req")
  then show ?thesis
    using Matched finish_template[of pf r res ev]
    by (auto simp: serve_mod_def split: sum.splits exn.splits)
qed

text \<open>
  C2 fails on the code. The request is a POST to \<^verbatim>\<open>/users\<close> that declares
  \<^verbatim>\<open>application/json\<close> and carries the body \<^verbatim>\<open>{\<close>. The catch block answers 400 and, through
  \<^verbatim>\<open>Object.assign(Router.#DEFAULT_HEADERS, ..)\<close>, leaves \<^verbatim>\<open>Content-Type: text/plain\<close> in
  the shared template, in both variants; the OPTIONS request served next carries it.
\<close>

theorem CustomError_writes_into_template:
  "DEFAULT_HEADERS demo_p0 = [(''Access-Control-Allow-Origin'', ''*'')] \<and>
   DEFAULT_HEADERS (router_after (serve_p0 demo_platform demo_p0
       (demo_request ''POST'' ''http://localhost:8000/users'' (Some ''application/json''))))
     = [(''Access-Control-Allow-Origin'', ''*''), (''Content-Type'', ''text/plain'')] \<and>
   DEFAULT_HEADERS (demo_mod Falsy Falsy) = [(''Access-Control-Allow-Origin'', ''*'')] \<and>
   DEFAULT_HEADERS (router_after (serve_mod demo_platform (demo_mod Falsy Falsy)
       (demo_request ''POST'' ''http://localhost:8000/users'' (Some ''application/json''))))
     = [(''Access-Control-Allow-Origin'', ''*''), (''Content-Type'', ''text/plain'')] \<and>
   answer (serve_p0 demo_platform
       (router_after (serve_p0 demo_platform demo_p0
          (demo_request ''POST'' ''http://localhost:8000/users'' (Some ''application/json''))))
       (demo_request ''OPTIONS'' ''http://localhost:8000/users'' None))
     = Responded \<lparr>body = None, status = 200,
         headers = [(''Access-Control-Allow-Origin'', ''*''), (''Content-Type'', ''text/plain'')]\<rparr>"
  by (simp add: run_defs Let_def)

subsection \<open>The two registry lookups\<close>

lemma resolve_not_found:
  assumes "new_URL pf (stripped_url (API_PREFIX r) (req_url req)) = Inr U"
    and "req_method req \<noteq> ''OPTIONS''"
    and "map_of (ROUTER_MAP r) (route_key (pathname U)) = None"
  shows "resolve pf r req =
           Finished (Responded
             \<lparr>body = Some (''Request path '' @ route_key (pathname U) @ '' does not exist''),
              status = 404, headers = DEFAULT_HEADERS r\<rparr>)"
proof -
  have "js_get (ROUTER_MAP r) (route_key (pathname U)) = Missing"
    using assms(3) route_key_own_or_missing[of "ROUTER_MAP r" "pathname U"]
    by (simp add: js_get_def split: if_splits)
  then show ?thesis
    using assms(1,2) by (simp add: resolve_def Let_def return_new_Response_ok)
qed

lemma resolve_method_not_allowed:
  assumes "new_URL pf (stripped_url (API_PREFIX r) (req_url req)) = Inr U"
    and "req_method req \<noteq> ''OPTIONS''"
    and "map_of (ROUTER_MAP r) (route_key (pathname U)) = Some ms"
    and "map_of ms (req_method req) = None"
    and "req_method req \<notin> set Object_prototype_names"
  shows "resolve pf r req =
           Finished (Responded
             \<lparr>body = Some (''Request method '' @ req_method req @ '' does not exist on path ''
                 @ route_key (pathname U)),
              status = 405, headers = DEFAULT_HEADERS r\<rparr>)"
proof -
  have "js_get (ROUTER_MAP r) (route_key (pathname U)) = Own ms"
    using assms(3) by (simp add: js_get_def)
  moreover have "js_get ms (req_method req) = Missing"
    using assms(4,5) by (simp add: js_get_def)
  ultimately show ?thesis
    using assms(1,2) by (simp add: resolve_def Let_def return_new_Response_ok)
qed

lemma resolve_inherited_method:
  assumes "new_URL pf (stripped_url (API_PREFIX r) (req_url req)) = Inr U"
    and "req_method req \<noteq> ''OPTIONS''"
    and "map_of (ROUTER_MAP r) (route_key (pathname U)) = Some ms"
    and "map_of ms (req_method req) = None"
    and "req_method req \<in> set Object_prototype_names"
  shows "resolve pf r req = Matched (route_key (pathname U)) Inherited"
proof -
  have "js_get (ROUTER_MAP r) (route_key (pathname U)) = Own ms"
    using assms(3) by (simp add: js_get_def)
  moreover have "js_get ms (req_method req) = Inherited"
    using assms(4,5) by (simp add: js_get_def)
  ultimately show ?thesis
    using assms(1,2) by (simp add: resolve_def Let_def)
qed

text \<open>
  A method such as \<^verbatim>\<open>constructor\<close> is the case the second lookup misses: \<^verbatim>\<open>/users\<close> is
  registered, no entry is registered for that method, and the lookup finds the function
  every object inherits under that name, which is truthy. The request goes on into the
  try block, where calling the missing \<^verbatim>\<open>handler\<close> is a TypeError: the answer is 500, not
  405, in both variants. For DELETE, which names no inherited property, it is 405.
\<close>

theorem inherited_method_name_is_500:
  "map_of [(''POST'', open_p0 hello), (''PUT'', open_p0 hello), (''GET'', signed_p0)] ''constructor'' = None \<and>
   answer (serve_p0 demo_platform demo_p0 (demo_request ''constructor'' ''http://localhost:8000/users'' None))
     = Responded \<lparr>body = Some ''is not a function'', status = 500,
         headers = [(''Access-Control-Allow-Origin'', ''*'')]\<rparr> \<and>
   answer (serve_mod demo_platform (demo_mod Falsy Falsy)
       (demo_request ''constructor'' ''http://localhost:8000/users'' None))
     = Responded \<lparr>body = Some ''is not a function'', status = 500,
         headers = [(''Access-Control-Allow-Origin'', ''*'')]\<rparr> \<and>
   answer (serve_p0 demo_platform demo_p0 (demo_request ''DELETE'' ''http://localhost:8000/users'' None))
     = Responded \<lparr>body = Some ''Request method DELETE does not exist on path /users'', status = 405,
         headers = [(''Access-Control-Allow-Origin'', ''*'')]\<rparr>"
  by (simp add: run_defs)

subsection \<open>The hooks after the encoder\<close>

lemma finish_prefix:
  "\<exists>tail. events (finish pf r (res, ev)) = ev @ tail"
  using finish_events[of pf r res ev] by blast

lemma finish_prefix_snd:
  "\<exists>tail. events (finish pf r t) = snd t @ tail"
  using finish_prefix[of pf r "fst t" "snd t"] by simp

lemma sign_then_login_p0:
  assumes m: "resolve pf r req = Matched path (Own e)"
    and v: "call_verify pf (truthy (verify_p0 e)) (verify_p0 e) req = (Inr payload, eva)"
    and h: "call_handler pf (handler_p0 e) payload req = (Inr result, evb)"
    and enc: "encode pf result (responseStatus_of req) (structuredClone (DEFAULT_HEADERS r)) = Inr resp"
    and s: "sign_p0 e = Func s"
  shows "(\<exists>rest. events (serve_p0 pf r req) = eva @ evb @ Sign_called resp payload # rest) \<and>
         (s resp payload = Inr h1 \<longrightarrow> login_p0 e = Func l \<longrightarrow>
            (\<exists>rest. events (serve_p0 pf r req) =
               eva @ evb @ Sign_called resp payload #
                 Login_called (resp\<lparr>headers := h1\<rparr>) (result_as_of (resp\<lparr>headers := h1\<rparr>) result) # rest) \<and>
            (l (resp\<lparr>headers := h1\<rparr>) (result_as_of (resp\<lparr>headers := h1\<rparr>) result) = Inr h2 \<longrightarrow>
               events (serve_p0 pf r req) =
                 eva @ evb @ [Sign_called resp payload,
                   Login_called (resp\<lparr>headers := h1\<rparr>) (result_as_of (resp\<lparr>headers := h1\<rparr>) result)] \<and>
               answer (serve_p0 pf r req) = Responded (resp\<lparr>headers := h2\<rparr>))) \<and>
         (s resp payload = Inr h1 \<longrightarrow> login_p0 e = Falsy \<longrightarrow>
            events (serve_p0 pf r req) = eva @ evb @ [Sign_called resp payload] \<and>
            answer (serve_p0 pf r req) = Responded (resp\<lparr>headers := h1\<rparr>))"
proof -
  have sv: "serve_p0 pf r req = finish pf r (try_p0 pf r e req)"
    using serve_p0_matched[OF m] by (simp add: entry_p0_of_def)
  let ?r1 = "resp\<lparr>headers := h1\<rparr>"
  let ?res1 = "result_as_of ?r1 result"
  have A: "\<exists>rest. events (serve_p0 pf r req) = eva @ evb @ Sign_called resp payload # rest"
  proof (cases "s resp payload")
    case (Inl ex)
    then have "try_p0 pf r e req = (Inl ex, eva @ evb @ [Sign_called resp payload])"
      using v h enc s by (simp add: try_p0_def call_hook_def)
    then show ?thesis
      using sv finish_prefix[of pf r "Inl ex" "eva @ evb @ [Sign_called resp payload]"] by auto
  next
    case (Inr hs)
    obtain lres e4 where l4: "call_hook pf (truthy (login_p0 e)) (login_p0 e) Login_called
        (resp\<lparr>headers := hs\<rparr>) (result_as_of (resp\<lparr>headers := hs\<rparr>) result) = (lres, e4)"
      by (cases "call_hook pf (truthy (login_p0 e)) (login_p0 e) Login_called
        (resp\<lparr>headers := hs\<rparr>) (result_as_of (resp\<lparr>headers := hs\<rparr>) result)")
    have "snd (try_p0 pf r e req) = eva @ evb @ [Sign_called resp payload] @ e4"
      using v h enc s Inr l4 by (cases lres) (simp_all add: try_p0_def call_hook_def)
    then show ?thesis
      using sv finish_prefix_snd[of pf r "try_p0 pf r e req"] by auto
  qed
  have B: "\<exists>rest. events (serve_p0 pf r req) =
             eva @ evb @ Sign_called resp payload # Login_called ?r1 ?res1 # rest"
    if s1: "s resp payload = Inr h1" and lg: "login_p0 e = Func l"
  proof (cases "l ?r1 ?res1")
    case (Inl ex)
    then have "try_p0 pf r e req =
        (Inl ex, eva @ evb @ [Sign_called resp payload] @ [Login_called ?r1 ?res1])"
      using v h enc s s1 lg by (simp add: try_p0_def call_hook_def)
    then show ?thesis
      using sv finish_prefix[of pf r "Inl ex"
          "eva @ evb @ [Sign_called resp payload] @ [Login_called ?r1 ?res1]"] by auto
  next
    case (Inr hl)
    then have "try_p0 pf r e req =
        (Inr (resp\<lparr>headers := hl\<rparr>), eva @ evb @ [Sign_called resp payload] @ [Login_called ?r1 ?res1])"
      using v h enc s s1 lg by (simp add: try_p0_def call_hook_def)
    then show ?thesis
      using sv by (simp add: finish_returned)
  qed
  have C: "events (serve_p0 pf r req) = eva @ evb @ [Sign_called resp payload, Login_called ?r1 ?res1] \<and>
           answer (serve_p0 pf r req) = Responded (resp\<lparr>headers := h2\<rparr>)"
    if s1: "s resp payload = Inr h1" and lg: "login_p0 e = Func l" and l2: "l ?r1 ?res1 = Inr h2"
  proof -
    have "try_p0 pf r e req =
        (Inr (resp\<lparr>headers := h2\<rparr>), eva @ evb @ [Sign_called resp payload] @ [Login_called ?r1 ?res1])"
      using v h enc s s1 lg l2 by (simp add: try_p0_def call_hook_def)
    then show ?thesis
      using sv by (simp add: finish_returned)
  qed
  have D: "events (serve_p0 pf r req) = eva @ evb @ [Sign_called resp payload] \<and>
           answer (serve_p0 pf r req) = Responded ?r1"
    if s1: "s resp payload = Inr h1" and lg: "login_p0 e = Falsy"
  proof -
    have "try_p0 pf r e req = (Inr ?r1, eva @ evb @ [Sign_called resp payload])"
      using v h enc s s1 lg by (simp add: try_p0_def call_hook_def)
    then show ?thesis
      using sv by (simp add: finish_returned)
  qed
  show ?thesis
    using A B C D by blast
qed

lemma auth_sign_mod:
  assumes m: "resolve pf r req = Matched path (Own e)"
    and v: "call_verify pf (truthy (verify_mod e) \<and> truthy (AUTH_VERIFY r)) (AUTH_VERIFY r) req = (Inr user, eva)"
    and h: "call_handler pf (handler_mod e) user req = (Inr result, evb)"
    and enc: "encode pf result (responseStatus_of req) (structuredClone (DEFAULT_HEADERS r)) = Inr resp"
    and f: "truthy (sign_mod e)"
    and s: "AUTH_SIGN r = Func s"
  shows "(\<exists>rest. events (serve_mod pf r req) = eva @ evb @ Sign_called resp result # rest) \<and>
         (s resp result = Inr h1 \<longrightarrow>
            events (serve_mod pf r req) = eva @ evb @ [Sign_called resp result] \<and>
            answer (serve_mod pf r req) = Responded (resp\<lparr>headers := h1\<rparr>))"
proof -
  have sv: "serve_mod pf r req = finish pf r (try_mod pf r e req)"
    using serve_mod_matched[OF m] by (simp add: entry_mod_of_def)
  have A: "\<exists>rest. events (serve_mod pf r req) = eva @ evb @ Sign_called resp result # rest"
  proof (cases "s resp result")
    case (Inl ex)
    then have "try_mod pf r e req = (Inl ex, eva @ evb @ [Sign_called resp result])"
      using v h enc f s by (simp add: try_mod_def call_hook_def)
    then show ?thesis
      using sv finish_prefix[of pf r "Inl ex" "eva @ evb @ [Sign_called resp result]"] by auto
  next
    case (Inr hs)
    then have "try_mod pf r e req = (Inr (resp\<lparr>headers := hs\<rparr>), eva @ evb @ [Sign_called resp result])"
      using v h enc f s by (simp add: try_mod_def call_hook_def)
    then show ?thesis
      using sv by (simp add: finish_returned)
  qed
  have B: "events (serve_mod pf r req) = eva @ evb @ [Sign_called resp result] \<and>
           answer (serve_mod pf r req) = Responded (resp\<lparr>headers := h1\<rparr>)"
    if s1: "s resp result = Inr h1"
  proof -
    have "try_mod pf r e req = (Inr (resp\<lparr>headers := h1\<rparr>), eva @ evb @ [Sign_called resp result])"
      using v h enc f s s1 by (simp add: try_mod_def call_hook_def)
    then show ?thesis
      using sv by (simp add: finish_returned)
  qed
  show ?thesis
    using A B by blast
qed

text \<open>
  C4, as the code has it. In both variants the request is matched, the verify step and
  the handler return and the encoder builds the response \<open>resp\<close>.

  \<^verbatim>\<open>part_000\<close>: the route's own sign hook is called next, with \<open>resp\<close> and the verify
  step's value. When it returns and the route has a login hook, that hook is called
  next, with the response as sign left it and the handler's result; when login returns,
  the response with the headers it left is the answer and the two calls are the last
  ones. When sign returns and there is no login hook, the response as sign left it is the
  answer.

  \<^verbatim>\<open>mod.js\<close>: for a route whose \<^verbatim>\<open>sign\<close> flag is set, the process-wide \<^verbatim>\<open>auth_sign\<close> is
  called next, with \<open>resp\<close> and the handler's result (not the verify step's value); when it
  returns, the response as it left it is the answer. There is no login hook.
\<close>

theorem sign_runs_after_encoding_then_login:
  "(resolve pf r0 req = Matched path0 (Own e0) \<longrightarrow>
    call_verify pf (truthy (verify_p0 e0)) (verify_p0 e0) req = (Inr payload, eva0) \<longrightarrow>
    call_handler pf (handler_p0 e0) payload req = (Inr result, evb0) \<longrightarrow>
    encode pf result (responseStatus_of req) (structuredClone (DEFAULT_HEADERS r0)) = Inr resp \<longrightarrow>
    sign_p0 e0 = Func s \<longrightarrow>
    (\<exists>rest. events (serve_p0 pf r0 req) = eva0 @ evb0 @ Sign_called resp payload # rest) \<and>
    (s resp payload = Inr h1 \<longrightarrow> login_p0 e0 = Func l \<longrightarrow>
       (\<exists>rest. events (serve_p0 pf r0 req) =
          eva0 @ evb0 @ Sign_called resp payload #
            Login_called (resp\<lparr>headers := h1\<rparr>) (result_as_of (resp\<lparr>headers := h1\<rparr>) result) # rest) \<and>
       (l (resp\<lparr>headers := h1\<rparr>) (result_as_of (resp\<lparr>headers := h1\<rparr>) result) = Inr h2 \<longrightarrow>
          events (serve_p0 pf r0 req) =
            eva0 @ evb0 @ [Sign_called resp payload,
              Login_called (resp\<lparr>headers := h1\<rparr>) (result_as_of (resp\<lparr>headers := h1\<rparr>) result)] \<and>
          answer (serve_p0 pf r0 req) = Responded (resp\<lparr>headers := h2\<rparr>))) \<and>
    (s resp payload = Inr h1 \<longrightarrow> login_p0 e0 = Falsy \<longrightarrow>
       events (serve_p0 pf r0 req) = eva0 @ evb0 @ [Sign_called resp payload] \<and>
       answer (serve_p0 pf r0 req) = Responded (resp\<lparr>headers := h1\<rparr>)))
   \<and>
   (resolve pf r1 req = Matched path1 (Own e1) \<longrightarrow>
    call_verify pf (truthy (verify_mod e1) \<and> truthy (AUTH_VERIFY r1)) (AUTH_VERIFY r1) req = (Inr payload, eva1) \<longrightarrow>
    call_handler pf (handler_mod e1) payload req = (Inr result, evb1) \<longrightarrow>
    encode pf result (responseStatus_of req) (structuredClone (DEFAULT_HEADERS r1)) = Inr resp \<longrightarrow>
    truthy (sign_mod e1) \<longrightarrow>
    AUTH_SIGN r1 = Func s \<longrightarrow>
    (\<exists>rest. events (serve_mod pf r1 req) = eva1 @ evb1 @ Sign_called resp result # rest) \<and>
    (s resp result = Inr h1 \<longrightarrow>
       events (serve_mod pf r1 req) = eva1 @ evb1 @ [Sign_called resp result] \<and>
       answer (serve_mod pf r1 req) = Responded (resp\<lparr>headers := h1\<rparr>)))"
proof (rule conjI)
  show "resolve pf r0 req = Matched path0 (Own e0) \<longrightarrow>
    call_verify pf (truthy (verify_p0 e0)) (verify_p0 e0) req = (Inr payload, eva0) \<longrightarrow>
    call_handler pf (handler_p0 e0) payload req = (Inr result, evb0) \<longrightarrow>
    encode pf result (responseStatus_of req) (structuredClone (DEFAULT_HEADERS r0)) = Inr resp \<longrightarrow>
    sign_p0 e0 = Func s \<longrightarrow>
    (\<exists>rest. events (serve_p0 pf r0 req) = eva0 @ evb0 @ Sign_called resp payload # rest) \<and>
    (s resp payload = Inr h1 \<longrightarrow> login_p0 e0 = Func l \<longrightarrow>
       (\<exists>rest. events (serve_p0 pf r0 req) =
          eva0 @ evb0 @ Sign_called resp payload #
            Login_called (resp\<lparr>headers := h1\<rparr>) (result_as_of (resp\<lparr>headers := h1\<rparr>) result) # rest) \<and>
       (l (resp\<lparr>headers := h1\<rparr>) (result_as_of (resp\<lparr>headers := h1\<rparr>) result) = Inr h2 \<longrightarrow>
          events (serve_p0 pf r0 req) =
            eva0 @ evb0 @ [Sign_called resp payload,
              Login_called (resp\<lparr>headers := h1\<rparr>) (result_as_of (resp\<lparr>headers := h1\<rparr>) result)] \<and>
          answer (serve_p0 pf r0 req) = Responded (resp\<lparr>headers := h2\<rparr>))) \<and>
    (s resp payload = Inr h1 \<longrightarrow> login_p0 e0 = Falsy \<longrightarrow>
       events (serve_p0 pf r0 req) = eva0 @ evb0 @ [Sign_called resp payload] \<and>
       answer (serve_p0 pf r0 req) = Responded (resp\<lparr>headers := h1\<rparr>))"
    by (intro impI) (rule sign_then_login_p0)
next
  show "resolve pf r1 req = Matched path1 (Own e1) \<longrightarrow>
    call_verify pf (truthy (verify_mod e1) \<and> truthy (AUTH_VERIFY r1)) (AUTH_VERIFY r1) req = (Inr payload, eva1) \<longrightarrow>
    call_handler pf (handler_mod e1) payload req = (Inr result, evb1) \<longrightarrow>
    encode pf result (responseStatus_of req) (structuredClone (DEFAULT_HEADERS r1)) = Inr resp \<longrightarrow>
    truthy (sign_mod e1) \<longrightarrow>
    AUTH_SIGN r1 = Func s \<longrightarrow>
    (\<exists>rest. events (serve_mod pf r1 req) = eva1 @ evb1 @ Sign_called resp result # rest) \<and>
    (s resp result = Inr h1 \<longrightarrow>
       events (serve_mod pf r1 req) = eva1 @ evb1 @ [Sign_called resp result] \<and>
       answer (serve_mod pf r1 req) = Responded (resp\<lparr>headers := h1\<rparr>))"
    by (intro impI) (rule auth_sign_mod)
qed

text \<open>
  GET \<^verbatim>\<open>/users?x=1\<close>: the route verifies (the caller is \<^verbatim>\<open>alice\<close>), its handler returns
  \<^verbatim>\<open>hello\<close>, and its sign and login hooks each add a header.
\<close>

theorem sign_runs_after_encoding_then_login_witness:
  "resolve demo_platform demo_p0 (demo_request ''GET'' ''http://localhost:8000/users?x=1'' None)
     = Matched ''/users'' (Own signed_p0) \<and>
   sign_p0 signed_p0 = Func (stamp ''X-Signed'') \<and>
   login_p0 signed_p0 = Func (stamp ''X-Login'') \<and>
   events (serve_p0 demo_platform demo_p0 (demo_request ''GET'' ''http://localhost:8000/users?x=1'' None))
     = [Verify_called (demo_request ''GET'' ''http://localhost:8000/users?x=1'' None),
        Handler_called (PQuery [(''x'', ''1'')]) (VString ''alice'')
          (demo_request ''GET'' ''http://localhost:8000/users?x=1'' None),
        Sign_called
          \<lparr>body = Some ''hello'', status = 200,
           headers = [(''Access-Control-Allow-Origin'', ''*''), (''Content-Type'', ''text/plain'')]\<rparr>
          (VString ''alice''),
        Login_called
          \<lparr>body = Some ''hello'', status = 200,
           headers = [(''Access-Control-Allow-Origin'', ''*''), (''Content-Type'', ''text/plain''),
                      (''X-Signed'', ''yes'')]\<rparr>
          (VString ''hello'')] \<and>
   answer (serve_p0 demo_platform demo_p0 (demo_request ''GET'' ''http://localhost:8000/users?x=1'' None))
     = Responded
         \<lparr>body = Some ''hello'', status = 200,
          headers = [(''Access-Control-Allow-Origin'', ''*''), (''Content-Type'', ''text/plain''),
                     (''X-Signed'', ''yes''), (''X-Login'', ''yes'')]\<rparr> \<and>
   resolve demo_platform (demo_mod (Func alice) (Func (stamp ''X-Signed'')))
       (demo_request ''GET'' ''http://localhost:8000/users?x=1'' None)
     = Matched ''/users'' (Own (flags_mod hello True True)) \<and>
   truthy (sign_mod (flags_mod hello True True)) \<and>
   AUTH_SIGN (demo_mod (Func alice) (Func (stamp ''X-Signed''))) = Func (stamp ''X-Signed'') \<and>
   events (serve_mod demo_platform (demo_mod (Func alice) (Func (stamp ''X-Signed'')))
       (demo_request ''GET'' ''http://localhost:8000/users?x=1'' None))
     = [Verify_called (demo_request ''GET'' ''http://localhost:8000/users?x=1'' None),
        Handler_called (PQuery [(''x'', ''1'')]) (VString ''alice'')
          (demo_request ''GET'' ''http://localhost:8000/users?x=1'' None),
        Sign_called
          \<lparr>body = Some ''hello'', status = 200,
           headers = [(''Access-Control-Allow-Origin'', ''*''), (''Content-Type'', ''text/plain'')]\<rparr>
          (VString ''hello'')] \<and>
   answer (serve_mod demo_platform (demo_mod (Func alice) (Func (stamp ''X-Signed'')))
       (demo_request ''GET'' ''http://localhost:8000/users?x=1'' None))
     = Responded
         \<lparr>body = Some ''hello'', status = 200,
          headers = [(''Access-Control-Allow-Origin'', ''*''), (''Content-Type'', ''text/plain''),
                     (''X-Signed'', ''yes'')]\<rparr>"
proof -
  let ?q = "demo_request ''GET'' ''http://localhost:8000/users?x=1'' None"
  let ?m = "demo_mod (Func alice) (Func (stamp ''X-Signed''))"
  let ?h0 = "[(''Access-Control-Allow-Origin'', ''*''), (''Content-Type'', ''text/plain'')]"
  let ?h1 = "[(''Access-Control-Allow-Origin'', ''*''), (''Content-Type'', ''text/plain''),
              (''X-Signed'', ''yes'')]"
  let ?h2 = "[(''Access-Control-Allow-Origin'', ''*''), (''Content-Type'', ''text/plain''),
              (''X-Signed'', ''yes''), (''X-Login'', ''yes'')]"
  let ?resp = "\<lparr>body = Some ''hello'', status = 200, headers = ?h0\<rparr>"
  have a1: "resolve demo_platform demo_p0 ?q = Matched ''/users'' (Own signed_p0)"
    by (simp add: request_defs plain_object_defs demo_defs split_def)
  have a2: "call_verify demo_platform (truthy (verify_p0 signed_p0)) (verify_p0 signed_p0) ?q
      = (Inr (VString ''alice''), [Verify_called ?q])"
    by (simp add: call_verify_def signed_p0_def alice_def)
  have a3: "call_handler demo_platform (handler_p0 signed_p0) (VString ''alice'') ?q
      = (Inr (VString ''hello''), [Handler_called (PQuery [(''x'', ''1'')]) (VString ''alice'') ?q])"
    by (simp add: request_defs plain_object_defs demo_defs split_def)
  have a4: "encode demo_platform (VString ''hello'') (responseStatus_of ?q)
      (structuredClone (DEFAULT_HEADERS demo_p0)) = Inr ?resp"
    by (simp add: request_defs plain_object_defs demo_defs)
  have a5: "sign_p0 signed_p0 = Func (stamp ''X-Signed'')"
    and a7: "login_p0 signed_p0 = Func (stamp ''X-Login'')"
    by (simp_all add: signed_p0_def)
  have a6: "stamp ''X-Signed'' ?resp (VString ''alice'') = Inr ?h1"
    by (simp add: stamp_def js_set_def)
  have a8: "stamp ''X-Login'' (?resp\<lparr>headers := ?h1\<rparr>)
      (result_as_of (?resp\<lparr>headers := ?h1\<rparr>) (VString ''hello'')) = Inr ?h2"
    by (simp add: stamp_def js_set_def)
  have b1: "resolve demo_platform ?m ?q = Matched ''/users'' (Own (flags_mod hello True True))"
    by (simp add: request_defs plain_object_defs demo_defs split_def)
  have b2: "call_verify demo_platform
      (truthy (verify_mod (flags_mod hello True True)) \<and> truthy (AUTH_VERIFY ?m)) (AUTH_VERIFY ?m) ?q
      = (Inr (VString ''alice''), [Verify_called ?q])"
    by (simp add: call_verify_def flags_mod_def demo_mod_def alice_def)
  have b3: "call_handler demo_platform (handler_mod (flags_mod hello True True)) (VString ''alice'') ?q
      = (Inr (VString ''hello''), [Handler_called (PQuery [(''x'', ''1'')]) (VString ''alice'') ?q])"
    by (simp add: request_defs plain_object_defs demo_defs split_def)
  have b4: "encode demo_platform (VString ''hello'') (responseStatus_of ?q)
      (structuredClone (DEFAULT_HEADERS ?m)) = Inr ?resp"
    by (simp add: request_defs plain_object_defs demo_defs)
  have b5: "truthy (sign_mod (flags_mod hello True True))"
    by (simp add: flags_mod_def)
  have b6: "AUTH_SIGN ?m = Func (stamp ''X-Signed'')"
    by (simp add: demo_mod_def)
  have b7: "stamp ''X-Signed'' ?resp (VString ''hello'') = Inr ?h1"
    by (simp add: stamp_def js_set_def)
  note p = sign_runs_after_encoding_then_login[THEN conjunct1, rule_format, OF a1 a2 a3 a4 a5]
  note c1 = p[THEN conjunct2, THEN conjunct1, rule_format, OF a6 a7, THEN conjunct2, rule_format, OF a8]
  note q = sign_runs_after_encoding_then_login[THEN conjunct2, rule_format, OF b1 b2 b3 b4 b5 b6]
  note c2 = q[THEN conjunct2, rule_format, OF b7]
  show ?thesis
    using a1 a5 a7 b1 b5 b6 c1 c2 by simp
qed

text \<open>
  C4 as stated fails in \<^verbatim>\<open>mod.js\<close>: for the same request the verify step gives \<^verbatim>\<open>alice\<close>
  and the handler gives \<^verbatim>\<open>hello\<close>, and the sign hook is called with the response and
  \<^verbatim>\<open>hello\<close>, the handler's result.
\<close>

theorem auth_sign_gets_handler_result:
  "events (serve_mod demo_platform (demo_mod (Func alice) (Func (stamp ''X-Signed'')))
       (demo_request ''GET'' ''http://localhost:8000/users?x=1'' None))
     = [Verify_called (demo_request ''GET'' ''http://localhost:8000/users?x=1'' None),
        Handler_called (PQuery [(''x'', ''1'')]) (VString ''alice'')
          (demo_request ''GET'' ''http://localhost:8000/users?x=1'' None),
        Sign_called
          \<lparr>body = Some ''hello'', status = 200,
           headers = [(''Access-Control-Allow-Origin'', ''*''), (''Content-Type'', ''text/plain'')]\<rparr>
          (VString ''hello'')] \<and>
   alice (demo_request ''GET'' ''http://localhost:8000/users?x=1'' None) = Inr (VString ''alice'') \<and>
   VString ''hello'' \<noteq> VString ''alice''"
  by (simp add: run_defs split_def)

subsection \<open>Every call of a request whose content type selects no decoder\<close>

lemma call_verify_raw_only:
  "call_verify pf c hook req = (res, ev) \<Longrightarrow> list_all (raw_only req) ev"
  by (drule call_verify_events) auto

lemma call_hook_raw_only:
  "call_hook pf c hook Sign_called resp arg = (res, ev) \<Longrightarrow> list_all (raw_only req) ev"
  "call_hook pf c hook Login_called resp arg = (res, ev) \<Longrightarrow> list_all (raw_only req) ev"
  by (drule call_hook_events, auto)+

lemma call_handler_raw_only:
  assumes "req_method req \<noteq> ''GET''"
    and "headers_get (req_headers req) ''content-type'' \<noteq> Some ''application/json''"
    and "headers_get (req_headers req) ''content-type'' \<noteq> Some ''text/plain''"
    and "headers_get (req_headers req) ''content-type'' \<noteq> Some ''multipart/form-data''"
    and "call_handler pf handler user req = (res, ev)"
  shows "list_all (raw_only req) ev"
  using assms by (cases handler) (auto simp: call_handler_def invoke_def)

lemma try_p0_raw_only:
  assumes "req_method req \<noteq> ''GET''"
    and "headers_get (req_headers req) ''content-type'' \<noteq> Some ''application/json''"
    and "headers_get (req_headers req) ''content-type'' \<noteq> Some ''text/plain''"
    and "headers_get (req_headers req) ''content-type'' \<noteq> Some ''multipart/form-data''"
  shows "list_all (raw_only req) (snd (try_p0 pf r e req))"
proof -
  obtain vres eva where v: "call_verify pf (truthy (verify_p0 e)) (verify_p0 e) req = (vres, eva)"
    by (cases "call_verify pf (truthy (verify_p0 e)) (verify_p0 e) req")
  note va = call_verify_raw_only[OF v]
  show ?thesis
  proof (cases vres)
    case (Inl ex)
    then show ?thesis using v va by (simp add: try_p0_def)
  next
    case (Inr payload)
    obtain out evb where h: "call_handler pf (handler_p0 e) payload req = (out, evb)"
      by (cases "call_handler pf (handler_p0 e) payload req")
    note hb = call_handler_raw_only[OF assms h]
    show ?thesis
    proof (cases out)
      case (Inl ex)
      then show ?thesis using v Inr h va hb by (simp add: try_p0_def)
    next
      case res: (Inr result)
      show ?thesis
      proof (cases "encode pf result (responseStatus_of req) (structuredClone (DEFAULT_HEADERS r))")
        case (Inl ex)
        then show ?thesis using v Inr h res va hb by (simp add: try_p0_def)
      next
        case enc: (Inr resp)
        obtain sres e3 where s: "call_hook pf (truthy (sign_p0 e)) (sign_p0 e) Sign_called resp payload = (sres, e3)"
          by (cases "call_hook pf (truthy (sign_p0 e)) (sign_p0 e) Sign_called resp payload")
        note sc = call_hook_raw_only(1)[OF s, of req]
        show ?thesis
        proof (cases sres)
          case (Inl ex)
          then show ?thesis using v Inr h res enc s va hb sc by (simp add: try_p0_def)
        next
          case sok: (Inr resp1)
          obtain lres e4 where l: "call_hook pf (truthy (login_p0 e)) (login_p0 e) Login_called resp1
              (result_as_of resp1 result) = (lres, e4)"
            by (cases "call_hook pf (truthy (login_p0 e)) (login_p0 e) Login_called resp1 (result_as_of resp1 result)")
          note lc = call_hook_raw_only(2)[OF l, of req]
          show ?thesis
            using v Inr h res enc s sok l va hb sc lc by (cases lres) (simp_all add: try_p0_def)
        qed
      qed
    qed
  qed
qed

lemma try_mod_raw_only:
  assumes "req_method req \<noteq> ''GET''"
    and "headers_get (req_headers req) ''content-type'' \<noteq> Some ''application/json''"
    and "headers_get (req_headers req) ''content-type'' \<noteq> Some ''text/plain''"
    and "headers_get (req_headers req) ''content-type'' \<noteq> Some ''multipart/form-data''"
  shows "list_all (raw_only req) (snd (try_mod pf r e req))"
proof -
  obtain vres eva where v: "call_verify pf (truthy (verify_mod e) \<and> truthy (AUTH_VERIFY r)) (AUTH_VERIFY r) req
      = (vres, eva)"
    by (cases "call_verify pf (truthy (verify_mod e) \<and> truthy (AUTH_VERIFY r)) (AUTH_VERIFY r) req")
  note va = call_verify_raw_only[OF v]
  show ?thesis
  proof (cases vres)
    case (Inl ex)
    then show ?thesis using v va by (simp add: try_mod_def)
  next
    case (Inr user)
    obtain out evb where h: "call_handler pf (handler_mod e) user req = (out, evb)"
      by (cases "call_handler pf (handler_mod e) user req")
    note hb = call_handler_raw_only[OF assms h]
    show ?thesis
    proof (cases out)
      case (Inl ex)
      then show ?thesis using v Inr h va hb by (simp add: try_mod_def)
    next
      case res: (Inr result)
      show ?thesis
      proof (cases "encode pf result (responseStatus_of req) (structuredClone (DEFAULT_HEADERS r))")
        case (Inl ex)
        then show ?thesis using v Inr h res va hb by (simp add: try_mod_def)
      next
        case enc: (Inr resp)
        obtain sres e3 where s: "call_hook pf (truthy (sign_mod e) \<and> truthy (AUTH_SIGN r)) (AUTH_SIGN r)
            Sign_called resp result = (sres, e3)"
          by (cases "call_hook pf (truthy (sign_mod e) \<and> truthy (AUTH_SIGN r)) (AUTH_SIGN r) Sign_called resp result")
        note sc = call_hook_raw_only(1)[OF s, of req]
        show ?thesis
          using v Inr h res enc s va hb sc by (cases sres) (simp_all add: try_mod_def)
      qed
    qed
  qed
qed

lemma finish_raw_only:
  "list_all (raw_only req) (snd t) \<Longrightarrow> list_all (raw_only req) (events (finish pf r t))"
proof (cases t)
  case (Pair res ev)
  assume "list_all (raw_only req) (snd t)"
  then show ?thesis
    using Pair
    by (cases res) (auto simp: finish_def catch_block_def Let_def split: exn.splits)
qed

lemma serve_p0_raw_only:
  assumes "req_method req \<noteq> ''GET''"
    and "headers_get (req_headers req) ''content-type'' \<noteq> Some ''application/json''"
    and "headers_get (req_headers req) ''content-type'' \<noteq> Some ''text/plain''"
    and "headers_get (req_headers req) ''content-type'' \<noteq> Some ''multipart/form-data''"
  shows "list_all (raw_only req) (events (serve_p0 pf r req))"
proof (cases "resolve pf r req")
  case (Finished out)
  then show ?thesis by (simp add: serve_p0_def)
next
  case (Matched path found)
  then show ?thesis
    using finish_raw_only[OF try_p0_raw_only[OF assms, of pf r "entry_p0_of found"], of pf r]
    by (simp add: serve_p0_def)
qed

lemma serve_mod_raw_only:
  assumes "req_method req \<noteq> ''GET''"
    and "headers_get (req_headers req) ''content-type'' \<noteq> Some ''application/json''"
    and "headers_get (req_headers req) ''content-type'' \<noteq> Some ''text/plain''"
    and "headers_get (req_headers req) ''content-type'' \<noteq> Some ''multipart/form-data''"
  shows "list_all (raw_only req) (events (serve_mod pf r req))"
proof (cases "resolve pf r req")
  case (Finished out)
  then show ?thesis by (simp add: serve_mod_def)
next
  case (Matched path found)
  then show ?thesis
    using finish_raw_only[OF try_mod_raw_only[OF assms, of pf r "entry_mod_of found"], of pf r]
    by (simp add: serve_mod_def)
qed

text \<open>
  C9: the decoder is chosen by comparing the whole \<^verbatim>\<open>content-type\<close> value with three
  strings. For every request that is not a GET and whose \<^verbatim>\<open>content-type\<close> is none of
  them (absent, or with a parameter as in \<^verbatim>\<open>application/json; charset=utf-8\<close>): the
  handler step is the handler's own outcome on the request object as payload, so that
  step raises no decoding error; whatever the route and the hooks do, no body read is
  among the request's calls and every call of the handler has the request object as
  payload; and in a matched request that has passed the verify step, the handler is
  called so right after that step. Both variants.
\<close>

theorem other_content_type_passes_request:
  assumes "req_method req \<noteq> ''GET''"
    and "headers_get (req_headers req) ''content-type'' \<noteq> Some ''application/json''"
    and "headers_get (req_headers req) ''content-type'' \<noteq> Some ''text/plain''"
    and "headers_get (req_headers req) ''content-type'' \<noteq> Some ''multipart/form-data''"
  shows
  "call_handler pf (Func h) user req =
     (h (PRequest req) user req, [Handler_called (PRequest req) user req])
   \<and> list_all (raw_only req) (events (serve_p0 pf r0 req))
   \<and> list_all (raw_only req) (events (serve_mod pf r1 req))
   \<and>
   (resolve pf r0 req = Matched path0 (Own e0) \<longrightarrow>
    handler_p0 e0 = Func h \<longrightarrow>
    call_verify pf (truthy (verify_p0 e0)) (verify_p0 e0) req = (Inr user, eva0) \<longrightarrow>
    (\<exists>rest. events (serve_p0 pf r0 req) = eva0 @ Handler_called (PRequest req) user req # rest))
   \<and>
   (resolve pf r1 req = Matched path1 (Own e1) \<longrightarrow>
    handler_mod e1 = Func h \<longrightarrow>
    call_verify pf (truthy (verify_mod e1) \<and> truthy (AUTH_VERIFY r1)) (AUTH_VERIFY r1) req = (Inr user, eva1) \<longrightarrow>
    (\<exists>rest. events (serve_mod pf r1 req) = eva1 @ Handler_called (PRequest req) user req # rest))"
  using call_handler_raw[OF assms, of pf h user]
    serve_p0_raw_only[OF assms, of pf r0]
    serve_mod_raw_only[OF assms, of pf r1]
    raw_p0[OF assms, of pf r0 path0 e0 h user eva0]
    raw_mod[OF assms, of pf r1 path1 e1 h user eva1]
  by blast

text \<open>
  POST \<^verbatim>\<open>/users\<close> with \<^verbatim>\<open>application/json; charset=utf-8\<close> and a body that is no JSON:
  the handler gets the request object and the response is its 201.
\<close>

theorem other_content_type_passes_request_witness:
  "req_method (demo_request ''POST'' ''http://localhost:8000/users'' (Some ''application/json; charset=utf-8''))
     \<noteq> ''GET'' \<and>
   headers_get (req_headers
       (demo_request ''POST'' ''http://localhost:8000/users'' (Some ''application/json; charset=utf-8'')))
     ''content-type'' = Some ''application/json; charset=utf-8'' \<and>
   req_json (demo_request ''POST'' ''http://localhost:8000/users'' (Some ''application/json; charset=utf-8''))
     = None \<and>
   events (serve_p0 demo_platform demo_p0
       (demo_request ''POST'' ''http://localhost:8000/users'' (Some ''application/json; charset=utf-8'')))
     = [Handler_called
          (PRequest (demo_request ''POST'' ''http://localhost:8000/users'' (Some ''application/json; charset=utf-8'')))
          VNull
          (demo_request ''POST'' ''http://localhost:8000/users'' (Some ''application/json; charset=utf-8''))] \<and>
   list_all
     (raw_only (demo_request ''POST'' ''http://localhost:8000/users'' (Some ''application/json; charset=utf-8'')))
     (events (serve_p0 demo_platform demo_p0
       (demo_request ''POST'' ''http://localhost:8000/users'' (Some ''application/json; charset=utf-8'')))) \<and>
   list_all
     (raw_only (demo_request ''POST'' ''http://localhost:8000/users'' (Some ''application/json; charset=utf-8'')))
     (events (serve_mod demo_platform (demo_mod Falsy Falsy)
       (demo_request ''POST'' ''http://localhost:8000/users'' (Some ''application/json; charset=utf-8'')))) \<and>
   (\<exists>rest. events (serve_mod demo_platform (demo_mod Falsy Falsy)
       (demo_request ''POST'' ''http://localhost:8000/users'' (Some ''application/json; charset=utf-8'')))
     = Handler_called
         (PRequest (demo_request ''POST'' ''http://localhost:8000/users'' (Some ''application/json; charset=utf-8'')))
         VNull
         (demo_request ''POST'' ''http://localhost:8000/users'' (Some ''application/json; charset=utf-8'')) # rest) \<and>
   answer (serve_p0 demo_platform demo_p0
       (demo_request ''POST'' ''http://localhost:8000/users'' (Some ''application/json; charset=utf-8'')))
     = Responded \<lparr>body = Some ''hello'', status = 201,
         headers = [(''Access-Control-Allow-Origin'', ''*''), (''Content-Type'', ''text/plain'')]\<rparr>"
proof -
  let ?q = "demo_request ''POST'' ''http://localhost:8000/users'' (Some ''application/json; charset=utf-8'')"
  have q1: "req_method ?q \<noteq> ''GET''"
    and q0: "headers_get (req_headers ?q) ''content-type'' = Some ''application/json; charset=utf-8''"
    and q5: "req_json ?q = None"
    by (simp_all add: demo_request_def headers_get_def)
  have q2: "headers_get (req_headers ?q) ''content-type'' \<noteq> Some ''application/json''"
    and q3: "headers_get (req_headers ?q) ''content-type'' \<noteq> Some ''text/plain''"
    and q4: "headers_get (req_headers ?q) ''content-type'' \<noteq> Some ''multipart/form-data''"
    by (simp_all add: q0)
  have b1: "resolve demo_platform (demo_mod Falsy Falsy) ?q
      = Matched ''/users'' (Own (flags_mod hello False False))"
    by (simp add: request_defs plain_object_defs demo_defs)
  have b2: "handler_mod (flags_mod hello False False) = Func hello"
    by (simp add: flags_mod_def)
  have b3: "call_verify demo_platform
      (truthy (verify_mod (flags_mod hello False False)) \<and> truthy (AUTH_VERIFY (demo_mod Falsy Falsy)))
      (AUTH_VERIFY (demo_mod Falsy Falsy)) ?q = (Inr VNull, [])"
    by (simp add: call_verify_def flags_mod_def demo_mod_def)
  note t = other_content_type_passes_request[OF q1 q2 q3 q4, of demo_platform hello VNull]
  note c1 = t[THEN conjunct2, THEN conjunct1, of demo_p0]
  note c2 = t[THEN conjunct2, THEN conjunct2, THEN conjunct1, of "demo_mod Falsy Falsy"]
  note c3 = t[THEN conjunct2, THEN conjunct2, THEN conjunct2, THEN conjunct2, rule_format, OF b1 b2 b3]
  have a1: "resolve demo_platform demo_p0 ?q = Matched ''/users'' (Own (open_p0 hello))"
    by (simp add: request_defs plain_object_defs demo_defs)
  have ev: "events (serve_p0 demo_platform demo_p0 ?q) = [Handler_called (PRequest ?q) VNull ?q]"
    by (simp add: serve_p0_def try_p0_def a1 request_defs plain_object_defs demo_defs)
  have an: "answer (serve_p0 demo_platform demo_p0 ?q)
     = Responded \<lparr>body = Some ''hello'', status = 201,
         headers = [(''Access-Control-Allow-Origin'', ''*''), (''Content-Type'', ''text/plain'')]\<rparr>"
    by (simp add: serve_p0_def try_p0_def a1 request_defs plain_object_defs demo_defs)
  show ?thesis
    using q1 q0 q5 ev an c1 c2 c3 by simp
qed

subsection \<open>Unknown paths and unknown methods\<close>

lemma lookup_answers_p0:
  assumes "req_method req \<noteq> ''OPTIONS''"
    and "new_URL pf (stripped_url (API_PREFIX r) (req_url req)) = Inr U"
  shows "(map_of (ROUTER_MAP r) (route_key (pathname U)) = None \<longrightarrow>
          serve_p0 pf r req =
            \<lparr>answer = Responded
               \<lparr>body = Some (''Request path '' @ route_key (pathname U) @ '' does not exist''),
                status = 404, headers = DEFAULT_HEADERS r\<rparr>,
             router_after = r, events = []\<rparr>) \<and>
         (map_of (ROUTER_MAP r) (route_key (pathname U)) = Some ms \<longrightarrow>
          map_of ms (req_method req) = None \<longrightarrow>
          req_method req \<notin> set Object_prototype_names \<longrightarrow>
          serve_p0 pf r req =
            \<lparr>answer = Responded
               \<lparr>body = Some (''Request method '' @ req_method req @ '' does not exist on path ''
                   @ route_key (pathname U)),
                status = 405, headers = DEFAULT_HEADERS r\<rparr>,
             router_after = r, events = []\<rparr>)"
  using resolve_not_found[OF assms(2,1)] resolve_method_not_allowed[OF assms(2,1)]
  by (simp add: serve_p0_def)

lemma lookup_answers_mod:
  assumes "req_method req \<noteq> ''OPTIONS''"
    and "new_URL pf (stripped_url (API_PREFIX r) (req_url req)) = Inr U"
  shows "(map_of (ROUTER_MAP r) (route_key (pathname U)) = None \<longrightarrow>
          serve_mod pf r req =
            \<lparr>answer = Responded
               \<lparr>body = Some (''Request path '' @ route_key (pathname U) @ '' does not exist''),
                status = 404, headers = DEFAULT_HEADERS r\<rparr>,
             router_after = r, events = []\<rparr>) \<and>
         (map_of (ROUTER_MAP r) (route_key (pathname U)) = Some ms \<longrightarrow>
          map_of ms (req_method req) = None \<longrightarrow>
          req_method req \<notin> set Object_prototype_names \<longrightarrow>
          serve_mod pf r req =
            \<lparr>answer = Responded
               \<lparr>body = Some (''Request method '' @ req_method req @ '' does not exist on path ''
                   @ route_key (pathname U)),
                status = 405, headers = DEFAULT_HEADERS r\<rparr>,
             router_after = r, events = []\<rparr>)"
  using resolve_not_found[OF assms(2,1)] resolve_method_not_allowed[OF assms(2,1)]
  by (simp add: serve_mod_def)

text \<open>
  C6, as the code has it. For a request that is not an OPTIONS request and whose URL
  parses: when the route key is no own property of the registry the answer is 404 with a
  message naming the route key; when it is, and the method has no entry there and is not
  the name of a property every object inherits, the answer is 405 with a message naming
  the method and the route key. Both variants. (What a method with an inherited name gets
  is \<open>inherited_method_name_is_500\<close>.)
\<close>

theorem unknown_path_is_404_unknown_method_is_405:
  assumes "req_method req \<noteq> ''OPTIONS''"
  shows
  "(new_URL pf (stripped_url (API_PREFIX r0) (req_url req)) = Inr U0 \<longrightarrow>
      (map_of (ROUTER_MAP r0) (route_key (pathname U0)) = None \<longrightarrow>
         answer (serve_p0 pf r0 req) =
           Responded \<lparr>body = Some (''Request path '' @ route_key (pathname U0) @ '' does not exist''),
             status = 404, headers = DEFAULT_HEADERS r0\<rparr>) \<and>
      (map_of (ROUTER_MAP r0) (route_key (pathname U0)) = Some ms0 \<longrightarrow>
       map_of ms0 (req_method req) = None \<longrightarrow>
       req_method req \<notin> set Object_prototype_names \<longrightarrow>
         answer (serve_p0 pf r0 req) =
           Responded \<lparr>body = Some (''Request method '' @ req_method req @ '' does not exist on path ''
               @ route_key (pathname U0)),
             status = 405, headers = DEFAULT_HEADERS r0\<rparr>))
   \<and>
   (new_URL pf (stripped_url (API_PREFIX r1) (req_url req)) = Inr U1 \<longrightarrow>
      (map_of (ROUTER_MAP r1) (route_key (pathname U1)) = None \<longrightarrow>
         answer (serve_mod pf r1 req) =
           Responded \<lparr>body = Some (''Request path '' @ route_key (pathname U1) @ '' does not exist''),
             status = 404, headers = DEFAULT_HEADERS r1\<rparr>) \<and>
      (map_of (ROUTER_MAP r1) (route_key (pathname U1)) = Some ms1 \<longrightarrow>
       map_of ms1 (req_method req) = None \<longrightarrow>
       req_method req \<notin> set Object_prototype_names \<longrightarrow>
         answer (serve_mod pf r1 req) =
           Responded \<lparr>body = Some (''Request method '' @ req_method req @ '' does not exist on path ''
               @ route_key (pathname U1)),
             status = 405, headers = DEFAULT_HEADERS r1\<rparr>))"
proof (rule conjI)
  show "new_URL pf (stripped_url (API_PREFIX r0) (req_url req)) = Inr U0 \<longrightarrow>
      (map_of (ROUTER_MAP r0) (route_key (pathname U0)) = None \<longrightarrow>
         answer (serve_p0 pf r0 req) =
           Responded \<lparr>body = Some (''Request path '' @ route_key (pathname U0) @ '' does not exist''),
             status = 404, headers = DEFAULT_HEADERS r0\<rparr>) \<and>
      (map_of (ROUTER_MAP r0) (route_key (pathname U0)) = Some ms0 \<longrightarrow>
       map_of ms0 (req_method req) = None \<longrightarrow>
       req_method req \<notin> set Object_prototype_names \<longrightarrow>
         answer (serve_p0 pf r0 req) =
           Responded \<lparr>body = Some (''Request method '' @ req_method req @ '' does not exist on path ''
               @ route_key (pathname U0)),
             status = 405, headers = DEFAULT_HEADERS r0\<rparr>)"
  proof
    assume u: "new_URL pf (stripped_url (API_PREFIX r0) (req_url req)) = Inr U0"
    show "(map_of (ROUTER_MAP r0) (route_key (pathname U0)) = None \<longrightarrow>
         answer (serve_p0 pf r0 req) =
           Responded \<lparr>body = Some (''Request path '' @ route_key (pathname U0) @ '' does not exist''),
             status = 404, headers = DEFAULT_HEADERS r0\<rparr>) \<and>
      (map_of (ROUTER_MAP r0) (route_key (pathname U0)) = Some ms0 \<longrightarrow>
       map_of ms0 (req_method req) = None \<longrightarrow>
       req_method req \<notin> set Object_prototype_names \<longrightarrow>
         answer (serve_p0 pf r0 req) =
           Responded \<lparr>body = Some (''Request method '' @ req_method req @ '' does not exist on path ''
               @ route_key (pathname U0)),
             status = 405, headers = DEFAULT_HEADERS r0\<rparr>)"
      using lookup_answers_p0[OF assms u, of ms0] by simp
  qed
next
  show "new_URL pf (stripped_url (API_PREFIX r1) (req_url req)) = Inr U1 \<longrightarrow>
      (map_of (ROUTER_MAP r1) (route_key (pathname U1)) = None \<longrightarrow>
         answer (serve_mod pf r1 req) =
           Responded \<lparr>body = Some (''Request path '' @ route_key (pathname U1) @ '' does not exist''),
             status = 404, headers = DEFAULT_HEADERS r1\<rparr>) \<and>
      (map_of (ROUTER_MAP r1) (route_key (pathname U1)) = Some ms1 \<longrightarrow>
       map_of ms1 (req_method req) = None \<longrightarrow>
       req_method req \<notin> set Object_prototype_names \<longrightarrow>
         answer (serve_mod pf r1 req) =
           Responded \<lparr>body = Some (''Request method '' @ req_method req @ '' does not exist on path ''
               @ route_key (pathname U1)),
             status = 405, headers = DEFAULT_HEADERS r1\<rparr>)"
  proof
    assume u: "new_URL pf (stripped_url (API_PREFIX r1) (req_url req)) = Inr U1"
    show "(map_of (ROUTER_MAP r1) (route_key (pathname U1)) = None \<longrightarrow>
         answer (serve_mod pf r1 req) =
           Responded \<lparr>body = Some (''Request path '' @ route_key (pathname U1) @ '' does not exist''),
             status = 404, headers = DEFAULT_HEADERS r1\<rparr>) \<and>
      (map_of (ROUTER_MAP r1) (route_key (pathname U1)) = Some ms1 \<longrightarrow>
       map_of ms1 (req_method req) = None \<longrightarrow>
       req_method req \<notin> set Object_prototype_names \<longrightarrow>
         answer (serve_mod pf r1 req) =
           Responded \<lparr>body = Some (''Request method '' @ req_method req @ '' does not exist on path ''
               @ route_key (pathname U1)),
             status = 405, headers = DEFAULT_HEADERS r1\<rparr>)"
      using lookup_answers_mod[OF assms u, of ms1] by simp
  qed
qed

text \<open>
  DELETE \<^verbatim>\<open>/nobody\<close>, a path that is not registered, in \<^verbatim>\<open>part_000\<close>; DELETE
  \<^verbatim>\<open>/users\<close>, a path registered for other methods, in \<^verbatim>\<open>mod.js\<close>.
\<close>

theorem unknown_path_is_404_unknown_method_is_405_witness:
  "req_method (demo_request ''DELETE'' ''http://localhost:8000/nobody'' None) \<noteq> ''OPTIONS'' \<and>
   new_URL demo_platform
       (stripped_url (API_PREFIX demo_p0) (req_url (demo_request ''DELETE'' ''http://localhost:8000/nobody'' None)))
     = Inr \<lparr>pathname = ''/nobody'', searchParams = []\<rparr> \<and>
   map_of (ROUTER_MAP demo_p0) (route_key ''/nobody'') = None \<and>
   answer (serve_p0 demo_platform demo_p0 (demo_request ''DELETE'' ''http://localhost:8000/nobody'' None))
     = Responded \<lparr>body = Some ''Request path /nobody does not exist'', status = 404,
         headers = [(''Access-Control-Allow-Origin'', ''*'')]\<rparr> \<and>
   map_of (ROUTER_MAP (demo_mod Falsy Falsy)) (route_key ''/users'')
     = Some [(''POST'', flags_mod hello False False), (''PUT'', flags_mod hello False False),
             (''GET'', flags_mod hello True True)] \<and>
   map_of [(''POST'', flags_mod hello False False), (''PUT'', flags_mod hello False False),
           (''GET'', flags_mod hello True True)] ''DELETE'' = None \<and>
   ''DELETE'' \<notin> set Object_prototype_names \<and>
   answer (serve_mod demo_platform (demo_mod Falsy Falsy)
       (demo_request ''DELETE'' ''http://localhost:8000/users'' None))
     = Responded \<lparr>body = Some ''Request method DELETE does not exist on path /users'', status = 405,
         headers = [(''Access-Control-Allow-Origin'', ''*'')]\<rparr>"
proof -
  let ?n = "demo_request ''DELETE'' ''http://localhost:8000/nobody'' None"
  let ?u = "demo_request ''DELETE'' ''http://localhost:8000/users'' None"
  let ?ms = "[(''POST'', flags_mod hello False False), (''PUT'', flags_mod hello False False),
              (''GET'', flags_mod hello True True)]"
  have m1: "req_method ?n \<noteq> ''OPTIONS''" and m2: "req_method ?u \<noteq> ''OPTIONS''"
    by (simp_all add: demo_request_def)
  have u1: "new_URL demo_platform (stripped_url (API_PREFIX demo_p0) (req_url ?n))
      = Inr \<lparr>pathname = ''/nobody'', searchParams = []\<rparr>"
    by (simp add: stripped_url_def demo_defs)
  have k1: "map_of (ROUTER_MAP demo_p0) (route_key (pathname \<lparr>pathname = ''/nobody'', searchParams = []\<rparr>)) = None"
    by (simp add: route_key_def demo_p0_def)
  have u2: "new_URL demo_platform (stripped_url (API_PREFIX (demo_mod Falsy Falsy)) (req_url ?u))
      = Inr \<lparr>pathname = ''/users'', searchParams = []\<rparr>"
    by (simp add: stripped_url_def demo_defs)
  have k2: "map_of (ROUTER_MAP (demo_mod Falsy Falsy))
      (route_key (pathname \<lparr>pathname = ''/users'', searchParams = []\<rparr>)) = Some ?ms"
    by (simp add: route_key_def demo_mod_def)
  have k3: "map_of ?ms (req_method ?u) = None"
    by (simp add: demo_request_def)
  have k4: "req_method ?u \<notin> set Object_prototype_names"
    by (simp add: demo_request_def Object_prototype_names_def)
  have rk: "route_key ''/nobody'' = ''/nobody''" "route_key ''/users'' = ''/users''"
    by (simp_all add: route_key_def)
  have d0: "DEFAULT_HEADERS demo_p0 = [(''Access-Control-Allow-Origin'', ''*'')]"
    "DEFAULT_HEADERS (demo_mod Falsy Falsy) = [(''Access-Control-Allow-Origin'', ''*'')]"
    by (simp_all add: demo_p0_def demo_mod_def cors_def)
  note c1 = unknown_path_is_404_unknown_method_is_405
    [OF m1, THEN conjunct1, rule_format, OF u1, THEN conjunct1, rule_format, OF k1]
  note c2 = unknown_path_is_404_unknown_method_is_405
    [OF m2, THEN conjunct2, rule_format, OF u2, THEN conjunct2, rule_format, OF k2 k3 k4]
  show ?thesis
    using m1 u1 k1 k2 k3 k4 c1 c2 by (simp add: rk d0 demo_request_def)
qed

text \<open>
  C6 as stated fails for OPTIONS: \<^verbatim>\<open>/users\<close> is registered, no entry is registered for
  the method OPTIONS, and the answer is the shortcut's 200 with no body, not 405, in both
  variants.
\<close>

theorem OPTIONS_on_registered_path_is_200:
  "map_of (ROUTER_MAP demo_p0) ''/users''
     = Some [(''POST'', open_p0 hello), (''PUT'', open_p0 hello), (''GET'', signed_p0)] \<and>
   map_of [(''POST'', open_p0 hello), (''PUT'', open_p0 hello), (''GET'', signed_p0)] ''OPTIONS'' = None \<and>
   answer (serve_p0 demo_platform demo_p0 (demo_request ''OPTIONS'' ''http://localhost:8000/users'' None))
     = Responded \<lparr>body = None, status = 200, headers = [(''Access-Control-Allow-Origin'', ''*'')]\<rparr> \<and>
   answer (serve_mod demo_platform (demo_mod Falsy Falsy)
       (demo_request ''OPTIONS'' ''http://localhost:8000/users'' None))
     = Responded \<lparr>body = None, status = 200, headers = [(''Access-Control-Allow-Origin'', ''*'')]\<rparr>"
  by (simp add: run_defs)

text \<open>
  C7 as stated fails for a route whose verify step throws, since that step runs before
  the body is read: POST \<^verbatim>\<open>/admin\<close> declares \<^verbatim>\<open>application/json\<close> and carries the body
  \<^verbatim>\<open>{\<close>, and the answer is the verify hook's 403, not 400, in both variants.
\<close>

theorem verify_error_precedes_body_error:
  "req_method (demo_request ''POST'' ''http://localhost:8000/admin'' (Some ''application/json'')) \<noteq> ''GET'' \<and>
   headers_get (req_headers (demo_request ''POST'' ''http://localhost:8000/admin'' (Some ''application/json'')))
       ''content-type'' = Some ''application/json'' \<and>
   req_json (demo_request ''POST'' ''http://localhost:8000/admin'' (Some ''application/json'')) = None \<and>
   resolve demo_platform demo_p0 (demo_request ''POST'' ''http://localhost:8000/admin'' (Some ''application/json''))
     = Matched ''/admin'' (Own guarded_p0) \<and>
   answer (serve_p0 demo_platform demo_p0
       (demo_request ''POST'' ''http://localhost:8000/admin'' (Some ''application/json'')))
     = Responded \<lparr>body = Some ''Forbidden'', status = 403,
         headers = [(''Access-Control-Allow-Origin'', ''*''), (''Content-Type'', ''text/plain'')]\<rparr> \<and>
   answer (serve_mod demo_platform (demo_mod (Func forbid) Falsy)
       (demo_request ''POST'' ''http://localhost:8000/admin'' (Some ''application/json'')))
     = Responded \<lparr>body = Some ''Forbidden'', status = 403,
         headers = [(''Access-Control-Allow-Origin'', ''*''), (''Content-Type'', ''text/plain'')]\<rparr>"
  by (simp add: run_defs Let_def)

subsection \<open>Which errors reach the listener\<close>










text \<open>
  A thrown \<^verbatim>\<open>null\<close> is the case the catch block misses: it is logged, reading its
  \<^verbatim>\<open>message\<close> is a TypeError inside the block, and that error reaches the listener. Here
  the verify hook of POST \<^verbatim>\<open>/admin\<close> throws it (\<^verbatim>\<open>mod.js\<close>), and the verify hook of a
  route of its own (\<^verbatim>\<open>part_000\<close>).
\<close>

theorem thrown_null_reaches_listener:
  "answer (serve_mod demo_platform (demo_mod (Func throws_null) Falsy)
       (demo_request ''POST'' ''http://localhost:8000/admin'' None))
     = Uncaught (Error ''Cannot read properties of null'') \<and>
   events (serve_mod demo_platform (demo_mod (Func throws_null) Falsy)
       (demo_request ''POST'' ''http://localhost:8000/admin'' None))
     = [Verify_called (demo_request ''POST'' ''http://localhost:8000/admin'' None),
        Console_error Thrown_nullish] \<and>
   answer (serve_p0 demo_platform
       (demo_p0\<lparr>ROUTER_MAP :=
          [(''/x'', [(''POST'', (open_p0 hello)\<lparr>verify_p0 := Func throws_null\<rparr>)])]\<rparr>)
       (demo_request ''POST'' ''http://localhost:8000/x'' None))
     = Uncaught (Error ''Cannot read properties of null'')"
  by (simp add: run_defs)

subsection \<open>Registration\<close>

lemma entry_at_js_set:
  "entry_at (js_set m path (js_set ms meth e)) p k =
     (if p = path then (if k = meth then Some e else map_of ms k) else entry_at m p k)"
  by (simp add: entry_at_def js_set_def update_conv')

lemma store_entry_stored:
  assumes "path \<notin> set Object_prototype_names"
  shows "\<exists>m'. store_entry pf r path meth e = Stored (r\<lparr>ROUTER_MAP := m'\<rparr>) \<and>
           (\<forall>p k. entry_at m' p k =
              (if p = path \<and> k = meth then Some e else entry_at (ROUTER_MAP r) p k))"
proof (cases "map_of (ROUTER_MAP r) path")
  case None
  then have "store_entry pf r path meth e =
      Stored (r\<lparr>ROUTER_MAP := js_set (ROUTER_MAP r) path (js_set [] meth e)\<rparr>)"
    using assms by (simp add: store_entry_def js_get_def)
  moreover have "\<forall>p k. entry_at (js_set (ROUTER_MAP r) path (js_set [] meth e)) p k =
      (if p = path \<and> k = meth then Some e else entry_at (ROUTER_MAP r) p k)"
    using None by (simp add: entry_at_js_set) (simp add: entry_at_def)
  ultimately show ?thesis by blast
next
  case (Some ms)
  then have "store_entry pf r path meth e =
      Stored (r\<lparr>ROUTER_MAP := js_set (ROUTER_MAP r) path (js_set ms meth e)\<rparr>)"
    by (simp add: store_entry_def js_get_def)
  moreover have "\<forall>p k. entry_at (js_set (ROUTER_MAP r) path (js_set ms meth e)) p k =
      (if p = path \<and> k = meth then Some e else entry_at (ROUTER_MAP r) p k)"
    using Some by (simp add: entry_at_js_set) (simp add: entry_at_def)
  ultimately show ?thesis by blast
qed

lemma Route_p0_throws:
  assumes "destructure_p0 options = Some ob"
    and "(truthy (opt_verify ob) \<and> \<not> is_function (opt_verify ob)) \<or>
         (truthy (opt_sign ob) \<and> \<not> is_function (opt_sign ob)) \<or>
         (truthy (opt_login ob) \<and> \<not> is_function (opt_login ob))"
  shows "Route_p0 pf r path meth handler options = Throws (Error ''The \"verify\" option must be a function'') \<or>
         Route_p0 pf r path meth handler options = Throws (Error ''The \"sign\" option must be a function'') \<or>
         Route_p0 pf r path meth handler options = Throws (Error ''The \"login\" option must be a function'')"
  using assms by (auto simp: Route_p0_def)

lemma Route_p0_stores:
  assumes "destructure_p0 options = Some ob"
    and "opt_verify ob = Falsy \<or> is_function (opt_verify ob)"
    and "opt_sign ob = Falsy \<or> is_function (opt_sign ob)"
    and "opt_login ob = Falsy \<or> is_function (opt_login ob)"
    and "path \<notin> set Object_prototype_names"
  shows "\<exists>m'. Route_p0 pf r path meth handler options = Stored (r\<lparr>ROUTER_MAP := m'\<rparr>) \<and>
           (\<forall>p k. entry_at m' p k =
              (if p = path \<and> k = meth
               then Some \<lparr>handler_p0 = handler, verify_p0 = opt_verify ob, sign_p0 = opt_sign ob,
                          login_p0 = opt_login ob, raw_p0 = opt_raw ob\<rparr>
               else entry_at (ROUTER_MAP r) p k))"
proof -
  have "Route_p0 pf r path meth handler options =
      store_entry pf r path meth
        \<lparr>handler_p0 = handler, verify_p0 = opt_verify ob, sign_p0 = opt_sign ob,
         login_p0 = opt_login ob, raw_p0 = opt_raw ob\<rparr>"
    using assms(1-4) by (auto simp: Route_p0_def)
  then show ?thesis
    by (simp only: store_entry_stored[OF assms(5)])
qed

lemma Route_mod_stores:
  assumes "destructure_mod options = Some ob"
    and "path \<notin> set Object_prototype_names"
  shows "\<exists>m'. Route_mod pf r path meth handler options = Stored (r\<lparr>ROUTER_MAP := m'\<rparr>) \<and>
           (\<forall>p k. entry_at m' p k =
              (if p = path \<and> k = meth
               then Some \<lparr>handler_mod = handler, verify_mod = opt_verify_mod ob,
                          sign_mod = opt_sign_mod ob\<rparr>
               else entry_at (ROUTER_MAP r) p k))"
proof -
  have "Route_mod pf r path meth handler options =
      store_entry pf r path meth
        \<lparr>handler_mod = handler, verify_mod = opt_verify_mod ob, sign_mod = opt_sign_mod ob\<rparr>"
    using assms(1) by (simp add: Route_mod_def)
  then show ?thesis
    by (simp only: store_entry_stored[OF assms(2)])
qed

text \<open>
  C5, as the code has it, for a registration whose options argument is an object or is
  left out (\<open>destructure\<close> gives the options). \<^verbatim>\<open>part_000\<close>: registration throws the
  Error of the first check that fails when a verify, sign or login option is truthy and
  not a function (a falsy one counts as not given). When each of the three is falsy or a
  function, and the path names no inherited property (no path that starts with a slash
  does), registration returns, the router's other fields are as before, and the registry
  holds the new entry for (path, method) and for every other pair the entry it held.
  \<^verbatim>\<open>mod.js\<close>: \<^verbatim>\<open>verify\<close> and \<^verbatim>\<open>sign\<close> are flags and nothing is checked: whatever the two
  options are, for such a path registration returns with the same effect on the registry,
  the options stored as given. (What a \<^verbatim>\<open>null\<close> options argument and a write that a
  built-in function refuses get is \<open>registration_TypeErrors\<close>.)
\<close>

theorem Route_checks_hooks_in_part_000_only:
  "(destructure_p0 options0 = Some ob0 \<longrightarrow>
    (truthy (opt_verify ob0) \<and> \<not> is_function (opt_verify ob0)) \<or>
      (truthy (opt_sign ob0) \<and> \<not> is_function (opt_sign ob0)) \<or>
      (truthy (opt_login ob0) \<and> \<not> is_function (opt_login ob0)) \<longrightarrow>
    Route_p0 pf r0 path meth handler options0 = Throws (Error ''The \"verify\" option must be a function'') \<or>
    Route_p0 pf r0 path meth handler options0 = Throws (Error ''The \"sign\" option must be a function'') \<or>
    Route_p0 pf r0 path meth handler options0 = Throws (Error ''The \"login\" option must be a function''))
   \<and>
   (destructure_p0 options0 = Some ob0 \<longrightarrow>
    (opt_verify ob0 = Falsy \<or> is_function (opt_verify ob0)) \<longrightarrow>
    (opt_sign ob0 = Falsy \<or> is_function (opt_sign ob0)) \<longrightarrow>
    (opt_login ob0 = Falsy \<or> is_function (opt_login ob0)) \<longrightarrow>
    path \<notin> set Object_prototype_names \<longrightarrow>
    (\<exists>m'. Route_p0 pf r0 path meth handler options0 = Stored (r0\<lparr>ROUTER_MAP := m'\<rparr>) \<and>
       (\<forall>p k. entry_at m' p k =
          (if p = path \<and> k = meth
           then Some \<lparr>handler_p0 = handler, verify_p0 = opt_verify ob0, sign_p0 = opt_sign ob0,
                      login_p0 = opt_login ob0, raw_p0 = opt_raw ob0\<rparr>
           else entry_at (ROUTER_MAP r0) p k))))
   \<and>
   (destructure_mod options1 = Some ob1 \<longrightarrow>
    path \<notin> set Object_prototype_names \<longrightarrow>
    (\<exists>m'. Route_mod pf r1 path meth handler options1 = Stored (r1\<lparr>ROUTER_MAP := m'\<rparr>) \<and>
       (\<forall>p k. entry_at m' p k =
          (if p = path \<and> k = meth
           then Some \<lparr>handler_mod = handler, verify_mod = opt_verify_mod ob1,
                      sign_mod = opt_sign_mod ob1\<rparr>
           else entry_at (ROUTER_MAP r1) p k))))"
proof (intro conjI impI)
  assume "destructure_p0 options0 = Some ob0"
    "(truthy (opt_verify ob0) \<and> \<not> is_function (opt_verify ob0)) \<or>
      (truthy (opt_sign ob0) \<and> \<not> is_function (opt_sign ob0)) \<or>
      (truthy (opt_login ob0) \<and> \<not> is_function (opt_login ob0))"
  then show "Route_p0 pf r0 path meth handler options0 = Throws (Error ''The \"verify\" option must be a function'') \<or>
    Route_p0 pf r0 path meth handler options0 = Throws (Error ''The \"sign\" option must be a function'') \<or>
    Route_p0 pf r0 path meth handler options0 = Throws (Error ''The \"login\" option must be a function'')"
    by (rule Route_p0_throws)
next
  assume "destructure_p0 options0 = Some ob0"
    "opt_verify ob0 = Falsy \<or> is_function (opt_verify ob0)"
    "opt_sign ob0 = Falsy \<or> is_function (opt_sign ob0)"
    "opt_login ob0 = Falsy \<or> is_function (opt_login ob0)"
    "path \<notin> set Object_prototype_names"
  then show "\<exists>m'. Route_p0 pf r0 path meth handler options0 = Stored (r0\<lparr>ROUTER_MAP := m'\<rparr>) \<and>
       (\<forall>p k. entry_at m' p k =
          (if p = path \<and> k = meth
           then Some \<lparr>handler_p0 = handler, verify_p0 = opt_verify ob0, sign_p0 = opt_sign ob0,
                      login_p0 = opt_login ob0, raw_p0 = opt_raw ob0\<rparr>
           else entry_at (ROUTER_MAP r0) p k))"
    by (rule Route_p0_stores)
next
  assume "destructure_mod options1 = Some ob1" "path \<notin> set Object_prototype_names"
  then show "\<exists>m'. Route_mod pf r1 path meth handler options1 = Stored (r1\<lparr>ROUTER_MAP := m'\<rparr>) \<and>
       (\<forall>p k. entry_at m' p k =
          (if p = path \<and> k = meth
           then Some \<lparr>handler_mod = handler, verify_mod = opt_verify_mod ob1,
                      sign_mod = opt_sign_mod ob1\<rparr>
           else entry_at (ROUTER_MAP r1) p k))"
    by (rule Route_mod_stores)
qed

text \<open>
  In \<^verbatim>\<open>part_000\<close>, \<^verbatim>\<open>{ verify: 42 }\<close> is refused, and DELETE \<^verbatim>\<open>/users\<close> with a verify
  function is stored next to the entries that were there; in \<^verbatim>\<open>mod.js\<close> the same
  registration with \<^verbatim>\<open>{ verify: true }\<close> is stored.
\<close>

theorem Route_checks_hooks_in_part_000_only_witness:
  "destructure_p0
     (Object_arg \<lparr>opt_verify = Truthy_nonfunc, opt_sign = Falsy, opt_login = Falsy, opt_raw = Falsy\<rparr>)
     = Some \<lparr>opt_verify = Truthy_nonfunc, opt_sign = Falsy, opt_login = Falsy, opt_raw = Falsy\<rparr> \<and>
   truthy (Truthy_nonfunc :: verify_fn slot) \<and> \<not> is_function (Truthy_nonfunc :: verify_fn slot) \<and>
   Route_p0 demo_platform demo_p0 ''/orders'' ''POST'' (Func hello)
     (Object_arg \<lparr>opt_verify = Truthy_nonfunc, opt_sign = Falsy, opt_login = Falsy, opt_raw = Falsy\<rparr>)
     = Throws (Error ''The \"verify\" option must be a function'') \<and>
   ''/users'' \<notin> set Object_prototype_names \<and>
   (\<exists>m'. Route_p0 demo_platform demo_p0 ''/users'' ''DELETE'' (Func hello)
            (Object_arg \<lparr>opt_verify = Func alice, opt_sign = Falsy, opt_login = Falsy, opt_raw = Falsy\<rparr>)
          = Stored (demo_p0\<lparr>ROUTER_MAP := m'\<rparr>) \<and>
        entry_at m' ''/users'' ''DELETE''
          = Some \<lparr>handler_p0 = Func hello, verify_p0 = Func alice, sign_p0 = Falsy, login_p0 = Falsy,
                  raw_p0 = Falsy\<rparr> \<and>
        entry_at m' ''/users'' ''POST'' = Some (open_p0 hello) \<and>
        entry_at m' ''/admin'' ''POST'' = Some guarded_p0) \<and>
   (\<exists>m'. Route_mod demo_platform (demo_mod Falsy Falsy) ''/users'' ''DELETE'' (Func hello)
            (Object_arg \<lparr>opt_verify_mod = Truthy_nonfunc, opt_sign_mod = Falsy\<rparr>)
          = Stored ((demo_mod Falsy Falsy)\<lparr>ROUTER_MAP := m'\<rparr>) \<and>
        entry_at m' ''/users'' ''DELETE''
          = Some \<lparr>handler_mod = Func hello, verify_mod = Truthy_nonfunc, sign_mod = Falsy\<rparr> \<and>
        entry_at m' ''/users'' ''POST'' = Some (flags_mod hello False False))"
proof -
  let ?bad = "\<lparr>opt_verify = Truthy_nonfunc, opt_sign = Falsy, opt_login = Falsy, opt_raw = Falsy\<rparr>"
  let ?good = "\<lparr>opt_verify = Func alice, opt_sign = Falsy, opt_login = Falsy, opt_raw = Falsy\<rparr>"
  let ?flag = "\<lparr>opt_verify_mod = Truthy_nonfunc, opt_sign_mod = Falsy\<rparr>"
  have d1: "destructure_p0 (Object_arg ?bad) = Some ?bad"
    and d2: "destructure_p0 (Object_arg ?good) = Some ?good"
    by (simp_all add: destructure_p0_def)
  have d3: "destructure_mod (Object_arg ?flag) = Some ?flag"
    by (simp add: destructure_mod_def)
  have t: "(truthy (opt_verify ?bad) \<and> \<not> is_function (opt_verify ?bad)) \<or>
      (truthy (opt_sign ?bad) \<and> \<not> is_function (opt_sign ?bad)) \<or>
      (truthy (opt_login ?bad) \<and> \<not> is_function (opt_login ?bad))"
    by simp
  have v: "opt_verify ?good = Falsy \<or> is_function (opt_verify ?good)"
    and f1: "opt_sign ?good = Falsy \<or> is_function (opt_sign ?good)"
    and f2: "opt_login ?good = Falsy \<or> is_function (opt_login ?good)"
    by simp_all
  have n: "''/users'' \<notin> set Object_prototype_names"
    by (rule slash_not_inherited)
  have old0: "entry_at (ROUTER_MAP demo_p0) ''/users'' ''POST'' = Some (open_p0 hello)"
    "entry_at (ROUTER_MAP demo_p0) ''/admin'' ''POST'' = Some guarded_p0"
    by (simp_all add: entry_at_def demo_p0_def)
  have old1: "entry_at (ROUTER_MAP (demo_mod Falsy Falsy)) ''/users'' ''POST'' = Some (flags_mod hello False False)"
    by (simp add: entry_at_def demo_mod_def)
  note c1 = Route_checks_hooks_in_part_000_only[THEN conjunct1, rule_format, OF d1 t]
  note c2 = Route_checks_hooks_in_part_000_only
    [THEN conjunct2, THEN conjunct1, rule_format, OF d2 v f1 f2 n]
  note c3 = Route_checks_hooks_in_part_000_only
    [THEN conjunct2, THEN conjunct2, rule_format, OF d3 n]
  have p1: "Route_p0 demo_platform demo_p0 ''/orders'' ''POST'' (Func hello) (Object_arg ?bad)
      = Throws (Error ''The \"verify\" option must be a function'')"
  proof -
    have "Route_p0 demo_platform demo_p0 ''/orders'' ''POST'' (Func hello) (Object_arg ?bad)
        \<noteq> Throws (Error ''The \"sign\" option must be a function'')"
      and "Route_p0 demo_platform demo_p0 ''/orders'' ''POST'' (Func hello) (Object_arg ?bad)
        \<noteq> Throws (Error ''The \"login\" option must be a function'')"
      by (simp_all add: Route_p0_def destructure_p0_def)
    then show ?thesis
      using c1[of demo_platform demo_p0 "''/orders''" "''POST''" "Func hello"] by blast
  qed
  have p2: "\<exists>m'. Route_p0 demo_platform demo_p0 ''/users'' ''DELETE'' (Func hello) (Object_arg ?good)
          = Stored (demo_p0\<lparr>ROUTER_MAP := m'\<rparr>) \<and>
        entry_at m' ''/users'' ''DELETE''
          = Some \<lparr>handler_p0 = Func hello, verify_p0 = Func alice, sign_p0 = Falsy, login_p0 = Falsy,
                  raw_p0 = Falsy\<rparr> \<and>
        entry_at m' ''/users'' ''POST'' = Some (open_p0 hello) \<and>
        entry_at m' ''/admin'' ''POST'' = Some guarded_p0"
  proof -
    obtain m' where m: "Route_p0 demo_platform demo_p0 ''/users'' ''DELETE'' (Func hello) (Object_arg ?good)
          = Stored (demo_p0\<lparr>ROUTER_MAP := m'\<rparr>)"
      and e: "\<forall>p k. entry_at m' p k =
          (if p = ''/users'' \<and> k = ''DELETE''
           then Some \<lparr>handler_p0 = Func hello, verify_p0 = opt_verify ?good, sign_p0 = opt_sign ?good,
                      login_p0 = opt_login ?good, raw_p0 = opt_raw ?good\<rparr>
           else entry_at (ROUTER_MAP demo_p0) p k)"
      using c2[of demo_platform demo_p0 "''DELETE''" "Func hello"] by blast
    have "entry_at m' ''/users'' ''DELETE''
          = Some \<lparr>handler_p0 = Func hello, verify_p0 = Func alice, sign_p0 = Falsy, login_p0 = Falsy,
                  raw_p0 = Falsy\<rparr>"
      and "entry_at m' ''/users'' ''POST'' = Some (open_p0 hello)"
      and "entry_at m' ''/admin'' ''POST'' = Some guarded_p0"
      using e old0 by simp_all
    then show ?thesis using m by blast
  qed
  have p3: "\<exists>m'. Route_mod demo_platform (demo_mod Falsy Falsy) ''/users'' ''DELETE'' (Func hello)
            (Object_arg ?flag)
          = Stored ((demo_mod Falsy Falsy)\<lparr>ROUTER_MAP := m'\<rparr>) \<and>
        entry_at m' ''/users'' ''DELETE''
          = Some \<lparr>handler_mod = Func hello, verify_mod = Truthy_nonfunc, sign_mod = Falsy\<rparr> \<and>
        entry_at m' ''/users'' ''POST'' = Some (flags_mod hello False False)"
  proof -
    obtain m' where m: "Route_mod demo_platform (demo_mod Falsy Falsy) ''/users'' ''DELETE'' (Func hello)
            (Object_arg ?flag) = Stored ((demo_mod Falsy Falsy)\<lparr>ROUTER_MAP := m'\<rparr>)"
      and e: "\<forall>p k. entry_at m' p k =
          (if p = ''/users'' \<and> k = ''DELETE''
           then Some \<lparr>handler_mod = Func hello, verify_mod = opt_verify_mod ?flag,
                      sign_mod = opt_sign_mod ?flag\<rparr>
           else entry_at (ROUTER_MAP (demo_mod Falsy Falsy)) p k)"
      using c3[of demo_platform "demo_mod Falsy Falsy" "''DELETE''" "Func hello"] by blast
    have "entry_at m' ''/users'' ''DELETE''
          = Some \<lparr>handler_mod = Func hello, verify_mod = Truthy_nonfunc, sign_mod = Falsy\<rparr>"
      and "entry_at m' ''/users'' ''POST'' = Some (flags_mod hello False False)"
      using e old1 by simp_all
    then show ?thesis using m by blast
  qed
  show ?thesis
    using d1 n p1 p2 p3 by simp
qed

text \<open>
  C5 as stated fails in \<^verbatim>\<open>mod.js\<close>, whose \<^verbatim>\<open>Route\<close> checks nothing: a registration whose
  \<^verbatim>\<open>verify\<close> and \<^verbatim>\<open>sign\<close> are given and are not functions is stored.
\<close>

theorem Route_mod_accepts_noncallable_options:
  "truthy (Truthy_nonfunc :: unit slot) \<and> \<not> is_function (Truthy_nonfunc :: unit slot) \<and>
   Route_mod demo_platform (demo_mod Falsy Falsy) ''/orders'' ''POST'' (Func hello)
       (Object_arg \<lparr>opt_verify_mod = Truthy_nonfunc, opt_sign_mod = Truthy_nonfunc\<rparr>)
     = Stored ((demo_mod Falsy Falsy)
         \<lparr>ROUTER_MAP := ROUTER_MAP (demo_mod Falsy Falsy) @
            [(''/orders'',
              [(''POST'', \<lparr>handler_mod = Func hello, verify_mod = Truthy_nonfunc,
                           sign_mod = Truthy_nonfunc\<rparr>)])]\<rparr>)"
  by (simp add: Route_mod_def destructure_mod_def store_entry_def js_get_def js_set_def demo_mod_def
      Object_prototype_names_def)

text \<open>
  The registrations that end in a TypeError of the engine, in both variants: \<^verbatim>\<open>null\<close> as
  the options argument, which the parameter pattern cannot destructure, and a path that
  names an inherited function together with a method that names a read-only property of
  it. With another method such a path leaves the registry without the route.
\<close>

theorem registration_TypeErrors:
  "Route_p0 demo_platform demo_p0 ''/orders'' ''POST'' (Func hello) Null_arg
     = Throws (Error ''Cannot destructure a null value'') \<and>
   Route_mod demo_platform (demo_mod Falsy Falsy) ''/orders'' ''POST'' (Func hello) Null_arg
     = Throws (Error ''Cannot destructure a null value'') \<and>
   Route_p0 demo_platform demo_p0 ''constructor'' ''prototype'' (Func hello) Undefined_arg
     = Throws (Error ''Cannot assign to read only property'') \<and>
   Route_mod demo_platform (demo_mod Falsy Falsy) ''toString'' ''name'' (Func hello) Undefined_arg
     = Throws (Error ''Cannot assign to read only property'') \<and>
   Route_mod demo_platform (demo_mod Falsy Falsy) ''toString'' ''GET'' (Func hello) Undefined_arg
     = Written_to_builtin"
  by (simp add: Route_p0_def Route_mod_def destructure_p0_def destructure_mod_def store_entry_def
      builtin_rejects_write_def js_get_def demo_p0_def demo_mod_def demo_platform_def
      demo_fault_message_def Object_prototype_names_def)

end
